theory Spec2Isabelle
  imports Complex_Main
begin

text \<open>
  The repository holds four Python scripts. Three of them build a report template (the
  risk-assessment act, \<^emph>\<open>Akt o proceni rizika\<close>) with python-docx and save it:
  \<^verbatim>\<open>create_template.py\<close>, \<^verbatim>\<open>backend/scripts/generate-docx-template.py\<close> and
  \<^verbatim>\<open>backend/scripts/generate-template.py\<close>. The fourth,
  \<^verbatim>\<open>backend/merge_all_results.py\<close>, reads a JSON file and prints a report. The theory
  models the four scripts with the library calls they make, then reads the templates they
  produce: their placeholders, their loop markers and their restatements of the risk
  levels.
\<close>

section \<open>Python values the scripts handle\<close>

text \<open>
  A Python \<^verbatim>\<open>str\<close> is a sequence of Unicode code points, so it is modelled as a list of
  natural numbers. The scripts print and store Serbian text (Cyrillic, Latin with
  diacritics, a few pictographs); those characters are written as their code points, and
  the ASCII parts of a literal are written with \<open>asc\<close>. An f-string of the source is written
  as the string it evaluates to: \<^verbatim>\<open>{{{{\<close> in an f-string is the two characters \<^verbatim>\<open>{{\<close>.

  For reading the literals against the source: 1040 to 1071 are the Cyrillic capitals
  from A to YA in alphabet order and 1072 to 1103 the small letters; 1106, 1112, 1113,
  1114 and 1115 are the Serbian small letters dje, je, lje, nje and tshe. 10 is the
  newline, 32 the blank, 34 the double quote, 39 the single quote, 215 the multiplication
  sign, 8222 the low opening quote, 8226 the bullet, 8804 the sign less-or-equal, 9473 a
  box-drawing line, 9888 with 65039 the warning sign.
\<close>

type_synonym pystr = "nat list"

definition asc :: "string \<Rightarrow> pystr" where
  "asc s = map of_char s"

text \<open>
  \<^verbatim>\<open>str(n)\<close> for a non-negative integer, as the f-strings of the scripts format
  \<^verbatim>\<open>len(...)\<close> and the sums computed from it.
\<close>

fun str_nat :: "nat \<Rightarrow> pystr" where
  "str_nat n = (if n < 10 then [48 + n] else str_nat (n div 10) @ [48 + n mod 10])"

declare str_nat.simps [simp del]

text \<open>
  The value \<^verbatim>\<open>json.load\<close> returns. An object keeps its members in file order; a
  repeated key is resolved as \<^verbatim>\<open>json.load\<close> does, the last member winning.
\<close>

datatype pyval =
    PNone
  | PBool bool
  | PInt int
  | PFloat real
  | PStr pystr
  | PList "pyval list"
  | PDict "(pystr \<times> pyval) list"

datatype exc_class =
    FileNotFoundError
  | JSONDecodeError
  | KeyError
  | TypeError
  | IndexError
  | ValueError
  | ModuleNotFoundError
  | OtherException
  | KeyboardInterrupt

text \<open>\<^verbatim>\<open>d[key]\<close> for a string key: only a dict can be subscripted by a string.\<close>

fun getitem_str :: "pyval \<Rightarrow> pystr \<Rightarrow> exc_class + pyval" where
  "getitem_str (PDict kvs) k =
     (case map_of (rev kvs) k of None \<Rightarrow> Inl KeyError | Some v \<Rightarrow> Inr v)"
| "getitem_str _ k = Inl TypeError"

text \<open>\<^verbatim>\<open>len(x)\<close>: defined on lists, dicts and strings, a \<^verbatim>\<open>TypeError\<close> elsewhere.\<close>

fun py_len :: "pyval \<Rightarrow> exc_class + nat" where
  "py_len (PList xs) = Inr (length xs)"
| "py_len (PDict kvs) = Inr (length (remdups (map fst kvs)))"
| "py_len (PStr s) = Inr (length s)"
| "py_len _ = Inl TypeError"


section \<open>The document object of python-docx\<close>

text \<open>
  The generators build a \<^verbatim>\<open>Document\<close> by appending paragraphs and tables to its body.
  A paragraph has a style name and runs; the run that \<^verbatim>\<open>add_page_break\<close> makes holds a
  page break instead of text. A table has a style name, its number of grid columns and
  rows of cells, each cell with its text. Character formatting (font, size, bold, colour), paragraph alignment and page
  margins are constant attribute assignments that the specification leaves out as
  styling; they are not part of the model.
\<close>

datatype run = Run pystr | PageBreak

datatype block =
    Paragraph "pystr option" "run list"
  | Table "pystr option" nat "pystr list list"

record document =
  body :: "block list"
  sections :: nat

text \<open>An exception object: its class, and what \<^verbatim>\<open>str(e)\<close> gives.\<close>

datatype exc = Exc exc_class pystr

fun exc_str :: "exc \<Rightarrow> pystr" where
  "exc_str (Exc c m) = m"

text \<open>
  \<^verbatim>\<open>except Exception\<close> catches every exception class but those deriving directly from
  \<^verbatim>\<open>BaseException\<close>, of which the model has \<^verbatim>\<open>KeyboardInterrupt\<close>.
\<close>

fun is_Exception :: "exc \<Rightarrow> bool" where
  "is_Exception (Exc c m) = (c \<noteq> KeyboardInterrupt)"


section \<open>The world a script runs in\<close>

text \<open>
  Files are kept at the level the scripts use them: a file that \<^verbatim>\<open>json.load\<close> parses
  to a value, a document written by \<^verbatim>\<open>doc.save\<close>, or anything else. The console holds
  one entry for each \<^verbatim>\<open>print\<close> call, in order; \<open>saved\<close> lists the paths of the
  \<^verbatim>\<open>doc.save\<close> calls that wrote a file, in order.
\<close>

type_synonym path = pystr

datatype content = JsonFile pyval | DocxFile document | OtherFile

record world =
  files :: "path \<rightharpoonup> content"
  console :: "pystr list"
  saved :: "path list"

definition print :: "pystr \<Rightarrow> world \<Rightarrow> world" where
  "print s w = w\<lparr>console := console w @ [s]\<rparr>"


section \<open>backend/merge_all_results.py\<close>

text \<open>
  \<^verbatim>\<open>with open(name, 'r', encoding='utf-8') as f: deepseek_data = json.load(f)\<close>:
  a missing file raises \<^verbatim>\<open>FileNotFoundError\<close>, a file that is not JSON text raises
  \<^verbatim>\<open>JSONDecodeError\<close> (for a file that is not UTF-8 text, its sibling
  \<^verbatim>\<open>UnicodeDecodeError\<close>, which the model does not tell apart).
\<close>

definition load_json :: "world \<Rightarrow> path \<Rightarrow> exc_class + pyval" where
  "load_json w p =
     (case files w p of
        None \<Rightarrow> Inl FileNotFoundError
      | Some (JsonFile v) \<Rightarrow> Inr v
      | Some _ \<Rightarrow> Inl JSONDecodeError)"

definition backup_json :: path where
  "backup_json = (asc ''sistematizacija-knowledge-base-backup.json'')"

definition claude_positions_count :: nat where
  "claude_positions_count = 18 + 20 + 5 + 15 + 21"

definition total_estimated :: "nat \<Rightarrow> nat" where
  "total_estimated chunk_2_4_5_positions = chunk_2_4_5_positions + claude_positions_count"

text \<open>
  What the nine \<^verbatim>\<open>print\<close> calls of the script print, given \<^verbatim>\<open>len(deepseek_positions)\<close>.
\<close>

definition merge_report :: "nat \<Rightarrow> pystr list" where
  "merge_report n =
    [ ([9989] @ asc '' DeepSeek rezultati: '') @ str_nat n @ (asc '' pozicija (chunk 2, 4, 5)'' @ [10]),
      ([128202] @ asc '' Claude rezultati: ~'') @ str_nat claude_positions_count @ (asc '' pozicija (chunk 1, 3, 6, 7, 8)''),
      ([128202] @ asc '' Ukupno pozicija: ~'') @ str_nat (total_estimated n) @ (asc '' od 137'' @ [10]),
      ([128161] @ asc '' Da zavr'' @ [353] @ asc ''imo merge, potrebno je:''),
      (asc ''   1. Sa'' @ [269] @ asc ''uvati JSON output iz svakog Claude agenta''),
      (asc ''   2. U'' @ [269] @ asc ''itati ih u Python i kombinovati sa DeepSeek rezultatima''),
      (asc ''   3. Sortirati po positionNumber''),
      (asc ''   4. Proveriti duplikate''),
      (asc ''   5. Sa'' @ [269] @ asc ''uvati finalnu bazu znanja'' @ [10]) ]"

text \<open>
  The script: it reads the file, takes \<^verbatim>\<open>deepseek_data['positions']\<close>, and prints.
  The result is the exception that ended the run, if one did, and the world after it.
\<close>

definition merge_all_results :: "world \<Rightarrow> exc_class option \<times> world" where
  "merge_all_results w =
     (case load_json w backup_json of
        Inl e \<Rightarrow> (Some e, w)
      | Inr deepseek_data \<Rightarrow>
          (case getitem_str deepseek_data (asc ''positions'') of
             Inl e \<Rightarrow> (Some e, w)
           | Inr deepseek_positions \<Rightarrow>
               (case py_len deepseek_positions of
                  Inl e \<Rightarrow> (Some e, w)
                | Inr n \<Rightarrow> (None, fold print (merge_report n) w))))"


section \<open>The python-docx calls the generators make\<close>

text \<open>
  A statement of a generator takes the document and gives it back changed, or raises.
  \<open>seq\<close> runs statements in order and stops at the first exception.
\<close>

type_synonym stmt = "document \<Rightarrow> exc + document"

fun seq :: "stmt list \<Rightarrow> stmt" where
  "seq [] d = Inr d"
| "seq (s # ss) d = (case s d of Inl e \<Rightarrow> Inl e | Inr d' \<Rightarrow> seq ss d')"

text \<open>\<^verbatim>\<open>Document()\<close>: the default template, an empty body in one section.\<close>

definition Document :: document where
  "Document = \<lparr>body = [], sections = 1\<rparr>"

text \<open>
  \<^verbatim>\<open>doc.add_paragraph(text, style)\<close> appends a paragraph, with one run when the text is
  not empty. A paragraph or table that later statements change is named by its position
  in the body, which \<open>new_paragraph\<close> and \<open>add_table\<close> hand to the statements that follow.
\<close>

definition add_paragraph :: "pystr \<Rightarrow> pystr option \<Rightarrow> stmt" where
  "add_paragraph text style d =
     Inr (d\<lparr>body := body d @ [Paragraph style (if text = [] then [] else [Run text])]\<rparr>)"

definition new_paragraph :: "pystr option \<Rightarrow> (nat \<Rightarrow> stmt) \<Rightarrow> stmt" where
  "new_paragraph style k d =
     (case add_paragraph [] style d of Inl e \<Rightarrow> Inl e | Inr d' \<Rightarrow> k (length (body d)) d')"

text \<open>
  A position that names no paragraph (or no table) cannot come from the two functions
  above; the model answers it with an exception of its own.
\<close>

definition no_such_object :: exc where
  "no_such_object = Exc OtherException (asc ''no such object'')"

definition add_run :: "nat \<Rightarrow> pystr \<Rightarrow> stmt" where
  "add_run p text d =
     (if p < length (body d) then
        (case body d ! p of
           Paragraph style runs \<Rightarrow>
             Inr (d\<lparr>body := (body d)[p := Paragraph style (runs @ [Run text])]\<rparr>)
         | Table style cols rows \<Rightarrow> Inl no_such_object)
      else Inl no_such_object)"

text \<open>
  \<^verbatim>\<open>doc.add_heading(text, level)\<close>: a paragraph in the style \<^verbatim>\<open>Title\<close> (level 0) or
  \<^verbatim>\<open>Heading n\<close>; a level above 9 raises \<^verbatim>\<open>ValueError\<close>.
\<close>

definition add_heading :: "pystr \<Rightarrow> nat \<Rightarrow> stmt" where
  "add_heading text level d =
     (if level > 9 then Inl (Exc ValueError (asc ''level must be in range 0-9, got '' @ str_nat level))
      else add_paragraph text
             (Some (if level = 0 then asc ''Title'' else asc ''Heading '' @ str_nat level)) d)"

definition add_page_break :: stmt where
  "add_page_break d = Inr (d\<lparr>body := body d @ [Paragraph None [PageBreak]]\<rparr>)"

text \<open>
  \<^verbatim>\<open>doc.add_table(rows, cols)\<close> appends a table of empty cells.
  \<^verbatim>\<open>table.rows[i].cells[j].text = s\<close> raises \<^verbatim>\<open>IndexError\<close> outside the table.
\<close>

definition add_table :: "nat \<Rightarrow> nat \<Rightarrow> (nat \<Rightarrow> stmt) \<Rightarrow> stmt" where
  "add_table rows cols k d =
     k (length (body d)) (d\<lparr>body := body d @ [Table None cols (replicate rows (replicate cols []))]\<rparr>)"

definition set_table_style :: "nat \<Rightarrow> pystr \<Rightarrow> stmt" where
  "set_table_style t name d =
     (if t < length (body d) then
        (case body d ! t of
           Table style cols rows \<Rightarrow>
             Inr (d\<lparr>body := (body d)[t := Table (Some name) cols rows]\<rparr>)
         | Paragraph style runs \<Rightarrow> Inl no_such_object)
      else Inl no_such_object)"

definition set_cell_text :: "nat \<Rightarrow> nat \<Rightarrow> nat \<Rightarrow> pystr \<Rightarrow> stmt" where
  "set_cell_text t i j text d =
     (if t < length (body d) then
        (case body d ! t of
           Table style cols rows \<Rightarrow>
             (if i < length rows then
                (if j < length (rows ! i) then
                   Inr (d\<lparr>body := (body d)[t := Table style cols (rows[i := (rows ! i)[j := text]])]\<rparr>)
                 else Inl (Exc IndexError (asc ''tuple index out of range'')))
              else Inl (Exc IndexError (asc ''list index out of range'')))
         | Paragraph style runs \<Rightarrow> Inl no_such_object)
      else Inl no_such_object)"

text \<open>
  \<^verbatim>\<open>row = table.add_row()\<close> appends a row with one empty cell for each grid column; the
  row is named by its index.
\<close>

definition add_row :: "nat \<Rightarrow> (nat \<Rightarrow> stmt) \<Rightarrow> stmt" where
  "add_row t k d =
     (if t < length (body d) then
        (case body d ! t of
           Table style cols rows \<Rightarrow>
             k (length rows) (d\<lparr>body := (body d)[t := Table style cols (rows @ [replicate cols []])]\<rparr>)
         | Paragraph style runs \<Rightarrow> Inl no_such_object)
      else Inl no_such_object)"

text \<open>
  \<^verbatim>\<open>for i, (label, value) in enumerate(data): row = table.rows[i];
  row.cells[0].text = label; row.cells[1].text = value\<close>, the loop that fills the
  two-column tables of \<^verbatim>\<open>create_template.py\<close>.
\<close>

fun fill_rows :: "nat \<Rightarrow> nat \<Rightarrow> (pystr \<times> pystr) list \<Rightarrow> stmt" where
  "fill_rows t i [] d = Inr d"
| "fill_rows t i ((label, val) # rest) d =
     (case seq [set_cell_text t i 0 label, set_cell_text t i 1 val] d of
        Inl e \<Rightarrow> Inl e
      | Inr d' \<Rightarrow> fill_rows t (Suc i) rest d')"

text \<open>
  \<^verbatim>\<open>for i, text in enumerate(texts): table.rows[r].cells[i].text = text\<close>, the loop that
  fills one row.
\<close>

fun fill_row :: "nat \<Rightarrow> nat \<Rightarrow> nat \<Rightarrow> pystr list \<Rightarrow> stmt" where
  "fill_row t r i [] d = Inr d"
| "fill_row t r i (text # rest) d =
     (case set_cell_text t r i text d of
        Inl e \<Rightarrow> Inl e
      | Inr d' \<Rightarrow> fill_row t r (Suc i) rest d')"

text \<open>\<^verbatim>\<open>len(doc.paragraphs)\<close> and \<^verbatim>\<open>len(doc.tables)\<close> count the blocks of the body.\<close>

fun is_paragraph :: "block \<Rightarrow> bool" where
  "is_paragraph (Paragraph style runs) = True"
| "is_paragraph (Table style cols rows) = False"

definition len_paragraphs :: "document \<Rightarrow> nat" where
  "len_paragraphs d = length (filter is_paragraph (body d))"

definition len_tables :: "document \<Rightarrow> nat" where
  "len_tables d = length (filter (\<lambda>b. \<not> is_paragraph b) (body d))"


section \<open>What a run of a generator can meet\<close>

text \<open>
  Three calls into python-docx can fail for reasons outside the script: the import of the
  package (python-docx not installed), \<^verbatim>\<open>Document()\<close> (the default template cannot be
  loaded) and \<^verbatim>\<open>doc.save(path)\<close> (the directory is missing or not writable). The
  environment says which of them raise, and what.
\<close>

record env =
  import_docx :: "exc option"
  new_Document :: "exc option"
  save_file :: "path \<Rightarrow> exc option"

definition doc_save :: "env \<Rightarrow> path \<Rightarrow> document \<Rightarrow> world \<Rightarrow> exc + world" where
  "doc_save env p d w =
     (case save_file env p of
        Some e \<Rightarrow> Inl e
      | None \<Rightarrow> Inr (w\<lparr>files := (files w)(p \<mapsto> DocxFile d), saved := saved w @ [p]\<rparr>))"


section \<open>backend/scripts/generate-docx-template.py\<close>

text \<open>
  \<^verbatim>\<open>create_template()\<close> is one straight run of builder calls. The model cuts it at the
  section banners of the source, one definition for each, in the order of the source.
\<close>

text \<open>1. NASLOVNA STRANA (Cover Page), lines 36 to 72.\<close>

definition ct_cover_page :: stmt where
  "ct_cover_page = seq [
     new_paragraph None (\<lambda>title. add_run title ([1056, 1045, 1055, 1059, 1041, 1051,
        1048, 1050, 1040, 32, 1057, 1056, 1041, 1048, 1032, 1040])),
     add_paragraph [] None,
     new_paragraph None (\<lambda>main_title. add_run main_title ([1040, 1050, 1058, 32, 1054,
        32, 1055, 1056, 1054, 1062, 1045, 1053, 1048, 32, 1056, 1048, 1047, 1048, 1050, 1040])),
     add_paragraph [] None,
     new_paragraph None (\<lambda>company_info. seq [
       add_run company_info (asc ''{{company.name}}'' @ [10]),
       add_run company_info (asc ''{{company.address}}, {{company.city}}'' @ [10]),
       add_run company_info ([1055, 1048, 1041] @ asc '': {{company.pib}}'')]),
     add_paragraph [] None,
     add_paragraph [] None,
     new_paragraph None (\<lambda>date_info. seq [
       add_run date_info ([1044, 1072, 1090, 1091, 1084, 32, 1080, 1079, 1088, 1072, 1076,
        1077] @ asc '': {{metadata.generatedDate}}'' @ [10]),
       add_run date_info ([1042, 1072, 1078, 1080, 32, 1076, 1086] @
        asc '': {{metadata.validUntil}}'')]),
     add_page_break]"

text \<open>2. Introduction, lines 78 to 124.\<close>

definition ct_introduction :: stmt where
  "ct_introduction = seq [
     add_heading (asc ''1. '' @ [1059, 1042, 1054, 1044]) 1,
     add_paragraph ([1054, 1074, 1072, 1112, 32, 1040, 1082, 1090, 32, 1086, 32, 1087, 1088,
        1086, 1094, 1077, 1085, 1080, 32, 1088, 1080, 1079, 1080, 1082, 1072, 32, 1080, 1079,
        1088, 1072, 1106, 1077, 1085, 32, 1112, 1077, 32, 1091, 32, 1089, 1082, 1083, 1072,
        1076, 1091, 32, 1089, 1072, 58]) None,
     add_paragraph
       ([8226, 32, 1047, 1072, 1082, 1086, 1085, 1086, 1084, 32, 1086, 32, 1073, 1077, 1079,
        1073, 1077, 1076, 1085, 1086, 1089, 1090, 1080, 32, 1080, 32, 1079, 1076, 1088, 1072,
        1074, 1113, 1091, 32, 1085, 1072, 32, 1088, 1072, 1076, 1091, 32, 40, 8222, 1057, 1083,
        46, 32, 1075, 1083, 1072, 1089, 1085, 1080, 1082, 32, 1056, 1057, 34, 44, 32, 1073,
        1088] @ asc ''. 101/2005, 91/2015 '' @ [1080] @ asc '' 113/2017)'')
       (Some (asc ''List Bullet'')),
     add_paragraph
       ([8226, 32, 1055, 1088, 1072, 1074, 1080, 1083, 1085, 1080, 1082, 1086, 1084, 32, 1086,
        32, 1085, 1072, 1095, 1080, 1085, 1091, 32, 1080, 32, 1087, 1086, 1089, 1090, 1091,
        1087, 1082, 1091, 32, 1087, 1088, 1086, 1094, 1077, 1085, 1077, 32, 1088, 1080, 1079,
        1080, 1082, 1072, 32, 1085, 1072, 32, 1088, 1072, 1076, 1085, 1086, 1084, 32, 1084,
        1077, 1089, 1090, 1091, 32, 1080, 32, 1091, 32, 1088, 1072, 1076, 1085, 1086, 1112, 32,
        1086, 1082, 1086, 1083, 1080, 1085, 1080, 32, 40, 8222, 1057, 1083, 46, 32, 1075, 1083,
        1072, 1089, 1085, 1080, 1082, 32, 1056, 1057, 34, 44, 32, 1073, 1088] @
        asc ''. 5/2018)'')
       (Some (asc ''List Bullet'')),
     add_paragraph [] None,
     add_paragraph
       ([1055, 1088, 1086, 1094, 1077, 1085, 1072, 32, 1088, 1080, 1079, 1080, 1082, 1072, 32,
        1086, 1073, 1072, 1074, 1113, 1077, 1085, 1072, 32, 1112, 1077, 32, 1079, 1072, 32,
        1087, 1088, 1077, 1076, 1091, 1079, 1077, 1115, 1077] @ asc '' {{company.name}} '' @
        [1082, 1086, 1088, 1080, 1096, 1115, 1077, 1114, 1077, 1084, 32, 1045, 215, 1055, 215,
        1060, 32, 1084, 1077, 1090, 1086, 1076, 1086, 1083, 1086, 1075, 1080, 1112, 1077, 32,
        40, 1048, 1079, 1083, 1086, 1078, 1077, 1085, 1086, 1089, 1090, 32, 215, 32, 1042, 1077,
        1088, 1086, 1074, 1072, 1090, 1085, 1086, 1115, 1072, 32, 215, 32, 1059, 1095, 1077,
        1089, 1090, 1072, 1083, 1086, 1089, 1090] @ asc ''). '' @ [1062, 1080, 1113, 32, 1087,
        1088, 1086, 1094, 1077, 1085, 1077, 32, 1088, 1080, 1079, 1080, 1082, 1072, 32, 1112,
        1077, 32, 1080, 1076, 1077, 1085, 1090, 1080, 1092, 1080, 1082, 1072, 1094, 1080, 1112,
        1072, 32, 1086, 1087, 1072, 1089, 1085, 1086, 1089, 1090, 1080, 32, 1080, 32, 1096,
        1090, 1077, 1090, 1085, 1086, 1089, 1090, 1080, 32, 1085, 1072, 32, 1088, 1072, 1076,
        1085, 1080, 1084, 32, 1084, 1077, 1089, 1090, 1080, 1084, 1072, 44, 32, 1087, 1088,
        1086, 1094, 1077, 1085, 1072, 32, 1085, 1080, 1074, 1086, 1072, 32, 1088, 1080, 1079,
        1080, 1082, 1072, 32, 1080, 32, 1091, 1090, 1074, 1088, 1106, 1080, 1074, 1072, 1114,
        1077, 32, 1084, 1077, 1088, 1072, 32, 1079, 1072, 32, 1114, 1080, 1093, 1086, 1074,
        1086, 32, 1086, 1090, 1082, 1083, 1072, 1114, 1072, 1114, 1077, 32, 1080, 1083, 1080,
        32, 1089, 1084, 1072, 1114, 1077, 1114, 1077, 46]) None,
     add_paragraph [] None,
     add_paragraph ([1060, 1086, 1088, 1084, 1091, 1083, 1072, 32, 1079, 1072, 32, 1080, 1079,
        1088, 1072, 1095, 1091, 1085, 1072, 1074, 1072, 1114, 1077, 32, 1085, 1080, 1074, 1086,
        1072, 32, 1088, 1080, 1079, 1080, 1082, 1072, 58]) None,
     new_paragraph None (\<lambda>formula. add_run formula ([1056] @ asc '' = '' @ [1045, 32,
        215, 32, 1055, 32, 215, 32, 1060])),
     add_paragraph [] None,
     add_paragraph
       ([1050, 1072, 1090, 1077, 1075, 1086, 1088, 1080, 1112, 1077, 32, 1088, 1080, 1079, 1080,
        1082, 1072, 58, 10, 8226, 32, 1053, 1080, 1079, 1072, 1082, 32, 1085, 1080, 1074, 1086,
        32, 1088, 1080, 1079, 1080, 1082, 1072, 32, 40, 1056, 32, 8804] @ asc '' 36)'' @ [10,
        8226, 32, 1057, 1088, 1077, 1076, 1114, 1080, 32, 1085, 1080, 1074, 1086, 32, 1088,
        1080, 1079, 1080, 1082, 1072] @ asc '' (36 < '' @ [1056, 32, 8804] @ asc '' 70)'' @ [10,
        8226, 32, 1042, 1080, 1089, 1086, 1082, 32, 1085, 1080, 1074, 1086, 32, 1088, 1080,
        1079, 1080, 1082, 1072, 32, 40, 1056] @ asc '' > 70)'') None,
     add_page_break]"

text \<open>3. Company Data, lines 130 to 143.\<close>

definition ct_company_data :: stmt where
  "ct_company_data = seq [
     add_heading (asc ''2. '' @ [1055, 1054, 1044, 1040, 1062, 1048, 32, 1054, 32, 1055, 1054,
        1057, 1051, 1054, 1044, 1040, 1042, 1062, 1059]) 1,
     add_paragraph ([1055, 1091, 1085, 32, 1085, 1072, 1079, 1080, 1074] @
        asc '': {{company.name}}'') None,
     add_paragraph ([1055, 1048, 1041] @ asc '': {{company.pib}}'') None,
     add_paragraph ([1052, 1072, 1090, 1080, 1095, 1085, 1080, 32, 1073, 1088, 1086, 1112] @
        asc '': {{company.maticniBroj}}'') None,
     add_paragraph ([1040, 1076, 1088, 1077, 1089, 1072, 32, 1089, 1077, 1076, 1080, 1096, 1090,
        1072] @ asc '': {{company.address}}, {{company.city}}'') None,
     add_paragraph ([1064, 1080, 1092, 1088, 1072, 32, 1076, 1077, 1083, 1072, 1090, 1085, 1086,
        1089, 1090, 1080] @ asc '': {{company.activityCode}}'') None,
     add_paragraph ([1054, 1087, 1080, 1089, 32, 1076, 1077, 1083, 1072, 1090, 1085, 1086, 1089,
        1090, 1080] @ asc '': {{company.activityDescription}}'') None,
     add_paragraph ([1044, 1080, 1088, 1077, 1082, 1090, 1086, 1088] @
        asc '': {{company.director}}'') None,
     add_paragraph ([1051, 1080, 1094, 1077, 32, 1086, 1076, 1075, 1086, 1074, 1086, 1088, 1085,
        1086, 32, 1079, 1072, 32, 1041, 1047, 1056] @ asc '': {{company.bzrResponsiblePerson}}'') None,
     add_paragraph ([1059, 1082, 1091, 1087, 1072, 1085, 32, 1073, 1088, 1086, 1112, 32, 1079,
        1072, 1087, 1086, 1089, 1083, 1077, 1085, 1080, 1093] @
        asc '': {{company.employeeCount}}'') None,
     add_page_break]"

text \<open>4. Organizational Structure, lines 149 to 157.\<close>

definition ct_organizational_structure :: stmt where
  "ct_organizational_structure = seq [
     add_heading (asc ''3. '' @ [1054, 1056, 1043, 1040, 1053, 1048, 1047, 1040, 1062, 1048,
        1054, 1053, 1040, 32, 1057, 1058, 1056, 1059, 1050, 1058, 1059, 1056, 1040]) 1,
     add_paragraph
       ([1055, 1088, 1077, 1076, 1091, 1079, 1077, 1115, 1077] @ asc '' {{company.name}} '' @
        [1079, 1072, 1087, 1086, 1096, 1113, 1072, 1074, 1072, 32, 1091, 1082, 1091, 1087, 1085,
        1086] @ asc '' {{summary.totalPositions}} '' @ [1088, 1072, 1076, 1085, 1080, 1082,
        1072, 32, 1085, 1072] @ asc '' {{summary.totalPositions}} '' @ [1088, 1072, 1076, 1085,
        1080, 1093, 32, 1084, 1077, 1089, 1090, 1072, 46]) None,
     add_page_break]"

text \<open>5. Position Systematization, lines 163 to 183.\<close>

definition ct_position_systematization :: stmt where
  "ct_position_systematization = seq [
     add_heading (asc ''4. '' @ [1057, 1048, 1057, 1058, 1045, 1052, 1040, 1058, 1048, 1047,
        1040, 1062, 1048, 1032, 1040, 32, 1056, 1040, 1044, 1053, 1048, 1061, 32, 1052, 1045,
        1057, 1058, 1040]) 1,
     add_paragraph (asc ''{{#positions}}'') None,
     add_paragraph [] None,
     new_paragraph None (\<lambda>pos_heading. add_run pos_heading (asc ''4.{{@index}}. {{positionName}}'')),
     add_paragraph (asc ''   '' @ [8226, 32, 1054, 1088, 1075, 1072, 1085, 1080, 1079, 1072,
        1094, 1080, 1086, 1085, 1072, 32, 1112, 1077, 1076, 1080, 1085, 1080, 1094, 1072] @
        asc '': {{department}}'') None,
     add_paragraph (asc ''   '' @ [8226, 32, 1041, 1088, 1086, 1112, 32, 1080, 1079, 1074, 1088,
        1096, 1080, 1083, 1072, 1094, 1072] @ asc '': {{totalCount}} ('' @ [1052] @
        asc '': {{maleCount}}, '' @ [1046] @ asc '': {{femaleCount}})'') None,
     add_paragraph (asc ''   '' @ [8226, 32, 1047, 1072, 1093, 1090, 1077, 1074, 1072, 1085,
        1072, 32, 1096, 1082, 1086, 1083, 1089, 1082, 1072, 32, 1089, 1087, 1088, 1077, 1084,
        1072] @ asc '': {{requiredEducation}}'') None,
     add_paragraph (asc ''   '' @ [8226, 32, 1055, 1086, 1090, 1088, 1077, 1073, 1085, 1086, 32,
        1080, 1089, 1082, 1091, 1089, 1090, 1074, 1086] @ asc '': {{requiredExperience}}'') None,
     add_paragraph (asc ''   '' @ [8226, 32, 1054, 1087, 1080, 1089, 32, 1087, 1086, 1089, 1083,
        1086, 1074, 1072] @ asc '': {{workDescription}}'') None,
     add_paragraph (asc ''{{/positions}}'') None,
     add_page_break]"

text \<open>
  6. Risk Assessment, lines 189 to 259. The table is appended at line 204, before the
  paragraph of line 223; its second row is filled after that paragraph was appended.
\<close>

definition ct_headers :: "pystr list" where
  "ct_headers = [([1054, 1087, 1072, 1089, 1085, 1086, 1089, 1090, 47, 1064, 1090, 1077, 1090,
        1085, 1086, 1089, 1090]), ([1045, 1080]), ([1055, 1080]), ([1060, 1080]), ([1056, 1080]),
     ([1052, 1077, 1088, 1077, 32, 1087, 1088, 1077, 1074, 1077, 1085, 1094, 1080, 1112, 1077]), [1045], [1055], [1060], [1056], ([1053,
        1080, 1074, 1086])]"

definition ct_placeholders :: "pystr list" where
  "ct_placeholders = [
     (asc ''{{hazardName}}''),
     (asc ''{{ei}}''),
     (asc ''{{pi}}''),
     (asc ''{{fi}}''),
     (asc ''{{ri}}''),
     (asc ''{{correctiveMeasures}}''),
     (asc ''{{e}}''),
     (asc ''{{p}}''),
     (asc ''{{f}}''),
     (asc ''{{r}}''),
     (asc ''{{riskLevel}}'')]"

definition ct_risk_assessment :: stmt where
  "ct_risk_assessment = seq [
     add_heading (asc ''5. '' @ [1055, 1056, 1054, 1062, 1045, 1053, 1040, 32, 1056, 1048, 1047,
        1048, 1050, 1040, 32, 1055, 1054, 32, 1056, 1040, 1044, 1053, 1048, 1052, 32, 1052,
        1045, 1057, 1058, 1048, 1052, 1040]) 1,
     add_paragraph (asc ''{{#positions}}'') None,
     add_paragraph [] None,
     new_paragraph None (\<lambda>pos_heading. add_run pos_heading (asc ''5.{{@index}}. '' @
        [1056, 1072, 1076, 1085, 1086, 32, 1084, 1077, 1089, 1090, 1086] @
        asc '': {{positionName}}'')),
     add_paragraph [] None,
     add_table 2 11 (\<lambda>table. seq [
       set_table_style table (asc ''Table Grid''),
       fill_row table 0 0 ct_headers,
       add_paragraph (asc ''{{#risks}}'') None,
       fill_row table 1 0 ct_placeholders]),
     add_paragraph (asc ''{{/risks}}'') None,
     add_paragraph [] None,
     new_paragraph None (\<lambda>note. seq [
       add_run note ([1053, 1072, 1087, 1086, 1084, 1077, 1085, 1072, 58, 32]),
       add_run note ([1053, 1080, 1074, 1086, 32, 1088, 1080, 1079, 1080, 1082, 1072] @
        asc '' - '' @ [1053, 1080, 1079, 1072, 1082, 32, 40, 1056, 32, 8804] @ asc '' 36), '' @
        [1057, 1088, 1077, 1076, 1114, 1080] @ asc '' (36 < '' @ [1056, 32, 8804] @
        asc '' 70), '' @ [1042, 1080, 1089, 1086, 1082, 32, 40, 1056] @ asc '' > 70)'')]),
     add_paragraph (asc ''{{/positions}}'') None,
     add_page_break]"

text \<open>7. Summary, lines 265 to 291.\<close>

definition ct_summary :: stmt where
  "ct_summary = seq [
     add_heading (asc ''6. '' @ [1047, 1041, 1054, 1056, 1053, 1048, 32, 1055, 1056, 1048, 1050,
        1040, 1047, 32, 1055, 1056, 1054, 1062, 1045, 1053, 1045]) 1,
     add_paragraph ([1059, 1082, 1091, 1087, 1085, 1086, 32, 1088, 1072, 1076, 1085, 1080, 1093,
        32, 1084, 1077, 1089, 1090, 1072] @ asc '': {{summary.totalPositions}}'') None,
     add_paragraph ([1059, 1082, 1091, 1087, 1085, 1086, 32, 1087, 1088, 1086, 1094, 1077, 1114,
        1077, 1085, 1080, 1093, 32, 1086, 1087, 1072, 1089, 1085, 1086, 1089, 1090, 1080] @
        asc '': {{summary.totalRisks}}'') None,
     add_paragraph [] None,
     new_paragraph None (\<lambda>summary_heading. add_run summary_heading ([1056, 1072, 1089,
        1087, 1086, 1076, 1077, 1083, 1072, 32, 1088, 1080, 1079, 1080, 1082, 1072, 58])),
     add_paragraph ([8226, 32, 1053, 1080, 1079, 1072, 1082, 32, 1085, 1080, 1074, 1086, 32, 40,
        1056, 32, 8804] @ asc '' 36): {{summary.lowRiskCount}}'') None,
     add_paragraph ([8226, 32, 1057, 1088, 1077, 1076, 1114, 1080, 32, 1085, 1080, 1074, 1086] @
        asc '' (36 < '' @ [1056, 32, 8804] @ asc '' 70): {{summary.mediumRiskCount}}'') None,
     add_paragraph ([8226, 32, 1042, 1080, 1089, 1086, 1082, 32, 1085, 1080, 1074, 1086, 32, 40,
        1056] @ asc '' > 70): {{summary.highRiskCount}}'') None,
     add_paragraph [] None,
     add_paragraph (asc ''{{#summary.highRiskPositions}}'') None,
     new_paragraph None (\<lambda>warning. add_run warning
       ([9888, 65039, 32, 1056, 1072, 1076, 1085, 1072, 32, 1084, 1077, 1089, 1090, 1072, 32,
        1089, 1072, 32, 1074, 1080, 1089, 1086, 1082, 1080, 1084, 32, 1088, 1080, 1079, 1080,
        1082, 1086, 1084] @ asc '': {{summary.highRiskPositions}}'')),
     add_paragraph (asc ''{{/summary.highRiskPositions}}'') None,
     add_page_break]"

text \<open>8. Appendices, lines 297 to 307.\<close>

definition ct_appendices :: stmt where
  "ct_appendices = seq [
     add_heading (asc ''7. '' @ [1055, 1056, 1048, 1051, 1054, 1047, 1048]) 1,
     add_paragraph
       ([1055, 1088, 1080, 1083, 1086, 1079, 1080, 32, 1082, 1086, 1112, 1080, 32, 1087, 1088,
        1072, 1090, 1077, 32, 1086, 1074, 1072, 1112, 32, 1040, 1082, 1090, 32, 1086, 32, 1087,
        1088, 1086, 1094, 1077, 1085, 1080, 32, 1088, 1080, 1079, 1080, 1082, 1072, 58, 10,
        8226, 32, 1057, 1087, 1080, 1089, 1072, 1082, 32, 1087, 1086, 1090, 1088, 1077, 1073,
        1085, 1080, 1093, 32, 1089, 1088, 1077, 1076, 1089, 1090, 1072, 1074, 1072, 32, 1080,
        32, 1086, 1087, 1088, 1077, 1084, 1077, 32, 1079, 1072, 32, 1083, 1080, 1095, 1085,
        1091, 32, 1079, 1072, 1096, 1090, 1080, 1090, 1091, 10, 8226, 32, 1055, 1083, 1072,
        1085, 32, 1086, 1073, 1091, 1082, 1077, 32, 1079, 1072, 1087, 1086, 1089, 1083, 1077,
        1085, 1080, 1093, 32, 1079, 1072, 32, 1073, 1077, 1079, 1073, 1077, 1076, 1072, 1085,
        32, 1088, 1072, 1076, 10, 8226, 32, 1057, 1087, 1080, 1089, 1072, 1082, 32, 1083, 1077,
        1082, 1072, 1088, 1089, 1082, 1080, 1093, 32, 1087, 1088, 1077, 1075, 1083, 1077, 1076,
        1072]) None,
     add_page_break]"

text \<open>9. Verification, lines 313 to 360; \<^verbatim>\<open>'_' * 30\<close> is thirty underscores.\<close>

definition ct_verification :: stmt where
  "ct_verification = seq [
     add_heading (asc ''8. '' @ [1042, 1045, 1056, 1048, 1060, 1048, 1050, 1040, 1062, 1048,
        1032, 1040, 32, 1048, 32, 1055, 1054, 1058, 1055, 1048, 1057, 1048]) 1,
     add_paragraph
       ([1054, 1074, 1072, 1112, 32, 1040, 1082, 1090, 32, 1086, 32, 1087, 1088, 1086, 1094,
        1077, 1085, 1080, 32, 1088, 1080, 1079, 1080, 1082, 1072, 32, 1074, 1077, 1088, 1080,
        1092, 1080, 1082, 1086, 1074, 1072, 1085, 32, 1112, 1077, 32, 1080, 32, 1089, 1090,
        1091, 1087, 1072, 32, 1085, 1072, 32, 1089, 1085, 1072, 1075, 1091, 32, 1076, 1072,
        1085, 1086, 1084] @ asc '' {{metadata.generatedDate}}.'') None,
     add_paragraph
       ([1042, 1072, 1078, 1080] @ asc '' {{metadata.validityPeriod}} '' @ [1086, 1076, 32,
        1076, 1072, 1085, 1072, 32, 1076, 1086, 1085, 1086, 1096, 1077, 1114, 1072, 32, 40,
        1091, 32, 1089, 1082, 1083, 1072, 1076, 1091, 32, 1089, 1072, 32, 1095, 1083, 1072,
        1085, 1086, 1084] @ asc '' 32 '' @ [1055, 1088, 1072, 1074, 1080, 1083, 1085, 1080,
        1082, 1072, 41, 46]) None,
     add_paragraph [] None,
     add_paragraph [] None,
     add_paragraph [] None,
     add_paragraph (replicate 30 95) None,
     add_paragraph (asc ''{{company.director}}'') None,
     add_paragraph ([1044, 1080, 1088, 1077, 1082, 1090, 1086, 1088]) None,
     add_paragraph [] None,
     add_paragraph [] None,
     add_paragraph (replicate 30 95) None,
     add_paragraph (asc ''{{company.bzrResponsiblePerson}}'') None,
     add_paragraph ([1051, 1080, 1094, 1077, 32, 1086, 1076, 1075, 1086, 1074, 1086, 1088, 1085,
        1086, 32, 1079, 1072, 32, 1073, 1077, 1079, 1073, 1077, 1076, 1085, 1086, 1089, 1090,
        32, 1080, 32, 1079, 1076, 1088, 1072, 1074, 1113, 1077, 32, 1085, 1072, 32, 1088, 1072,
        1076, 1091]) None,
     add_paragraph [] None,
     add_paragraph [] None,
     new_paragraph None (\<lambda>footer. add_run footer ([1044, 1086, 1082, 1091, 1084, 1077,
        1085, 1090, 32, 1075, 1077, 1085, 1077, 1088, 1080, 1089, 1072, 1085, 32, 1072, 1091,
        1090, 1086, 1084, 1072, 1090, 1089, 1082, 1080, 32, 1089, 1080, 1089, 1090, 1077, 1084,
        1086, 1084] @ asc '' BZR Portal''))]"

definition ct_build :: stmt where
  "ct_build = seq [
     ct_cover_page,
     ct_introduction,
     ct_company_data,
     ct_organizational_structure,
     ct_position_systematization,
     ct_risk_assessment,
     ct_summary,
     ct_appendices,
     ct_verification]"

definition ct_output_path :: path where
  "ct_output_path = (asc ''templates/akt-procena-rizika-template.docx'')"

text \<open>
  \<^verbatim>\<open>create_template()\<close>: \<^verbatim>\<open>Document()\<close>, the builder calls, \<^verbatim>\<open>doc.save\<close>, four
  prints (the fourth is the bare \<^verbatim>\<open>print()\<close>, an empty line) and a fifth.
\<close>

definition ct_prints :: "document \<Rightarrow> pystr list" where
  "ct_prints doc = [
     (asc ''[OK] Template created: '') @ ct_output_path,
     (asc ''[INFO] Total pages: ~'') @ str_nat (sections doc) @ (asc '' sections''),
     (asc ''[INFO] Ready for docx-templates library''),
     [],
     (asc ''Next: Test with npm test -- document.service.test.ts'')]"

definition create_template :: "env \<Rightarrow> world \<Rightarrow> exc option \<times> world" where
  "create_template env w =
     (case new_Document env of
        Some e \<Rightarrow> (Some e, w)
      | None \<Rightarrow>
          (case ct_build Document of
             Inl e \<Rightarrow> (Some e, w)
           | Inr doc \<Rightarrow>
               (case doc_save env ct_output_path doc w of
                  Inl e \<Rightarrow> (Some e, w)
                | Inr w' \<Rightarrow> (None, fold print (ct_prints doc) w'))))"

text \<open>
  The module: the imports at its top, then, under \<^verbatim>\<open>__main__\<close>,
  \<^verbatim>\<open>try: create_template() except Exception as e:\<close> with four prints in the handler.
  The imports are outside the \<^verbatim>\<open>try\<close>.
\<close>

definition ct_handler_prints :: "exc \<Rightarrow> pystr list" where
  "ct_handler_prints e = [
     (asc ''[ERROR] Error: '') @ exc_str e,
     [],
     (asc ''Make sure python-docx is installed:''),
     (asc ''  pip install python-docx'')]"

definition generate_docx_template_main :: "env \<Rightarrow> world \<Rightarrow> exc option \<times> world" where
  "generate_docx_template_main env w =
     (case import_docx env of
        Some e \<Rightarrow> (Some e, w)
      | None \<Rightarrow>
          (case create_template env w of
             (None, w') \<Rightarrow> (None, w')
           | (Some e, w') \<Rightarrow>
               (if is_Exception e then (None, fold print (ct_handler_prints e) w')
                else (Some e, w'))))"


section \<open>create_template.py\<close>

text \<open>
  The script has no functions: the builder calls stand at the top level of the module.
  The model cuts them at the section banners of the source.
\<close>

text \<open>NASLOVNA STRANA (FR-034), lines 26 to 49.\<close>

definition cr_cover_page :: stmt where
  "cr_cover_page = seq [
     new_paragraph None (\<lambda>title. add_run title ([1040, 1050, 1058, 32, 1054, 32, 1055,
        1056, 1054, 1062, 1045, 1053, 1048, 32, 1056, 1048, 1047, 1048, 1050, 1040])),
     add_paragraph [] None,
     new_paragraph None (\<lambda>company_name. add_run company_name (asc ''{{company.name}}'')),
     add_paragraph [] None,
     new_paragraph None (\<lambda>address_p. add_run address_p (asc ''{{company.address}}'')),
     add_page_break]"

text \<open>1. UVOD (FR-035), lines 54 to 71.\<close>

definition cr_intro :: stmt where
  "cr_intro = seq [
     add_heading (asc ''1. '' @ [1059, 1042, 1054, 1044]) 1,
     add_paragraph
       ([1054, 1074, 1072, 1112, 32, 1040, 1082, 1090, 32, 1086, 32, 1087, 1088, 1086, 1094,
        1077, 1085, 1080, 32, 1088, 1080, 1079, 1080, 1082, 1072, 32, 1089, 1072, 1095, 1080,
        1114, 1077, 1085, 32, 1112, 1077, 32, 1091, 32, 1089, 1082, 1083, 1072, 1076, 1091, 32,
        1089, 1072, 32, 1047, 1072, 1082, 1086, 1085, 1086, 1084, 32, 1086, 32, 1073, 1077,
        1079, 1073, 1077, 1076, 1085, 1086, 1089, 1090, 1080, 32, 1080, 32, 1079, 1076, 1088,
        1072, 1074, 1113, 1091, 32, 1085, 1072, 32, 1088, 1072, 1076, 1091, 32, 40, 8222, 1057,
        1083, 1091, 1078, 1073, 1077, 1085, 1080, 32, 1075, 1083, 1072, 1089, 1085, 1080, 1082,
        32, 1056, 1057, 34, 44, 32, 1073, 1088] @ asc ''. 101/2005, 91/2015 '' @ [1080] @
        asc '' 113/2017) '' @ [1080, 32, 1055, 1088, 1072, 1074, 1080, 1083, 1085, 1080, 1082,
        1086, 1084, 32, 1086, 32, 1087, 1088, 1077, 1074, 1077, 1085, 1090, 1080, 1074, 1085,
        1080, 1084, 32, 1084, 1077, 1088, 1072, 1084, 1072, 32, 1079, 1072, 32, 1073, 1077,
        1079, 1073, 1077, 1076, 1072, 1085, 32, 1080, 32, 1079, 1076, 1088, 1072, 1074, 32,
        1088, 1072, 1076, 32, 1087, 1088, 1080, 32, 1080, 1079, 1083, 1072, 1075, 1072, 1114,
        1091, 32, 1088, 1080, 1079, 1080, 1094, 1080, 1084, 1072, 32, 1091, 1089, 1083, 1077,
        1076, 32, 1087, 1086, 1112, 1072, 1074, 1077, 32, 1096, 1090, 1077, 1090, 1085, 1086,
        1089, 1090, 1080, 32, 1091, 32, 1088, 1072, 1076, 1085, 1086, 1112, 32, 1086, 1082,
        1086, 1083, 1080, 1085, 1080, 32, 40, 8222, 1057, 1083, 1091, 1078, 1073, 1077, 1085,
        1080, 32, 1075, 1083, 1072, 1089, 1085, 1080, 1082, 32, 1056, 1057, 34, 44, 32, 1073,
        1088] @ asc ''. 5/2018).'') None,
     add_paragraph
       ([1062, 1080, 1113, 32, 1087, 1088, 1086, 1094, 1077, 1085, 1077, 32, 1088, 1080, 1079,
        1080, 1082, 1072, 32, 1112, 1077, 32, 1080, 1076, 1077, 1085, 1090, 1080, 1092, 1080,
        1082, 1072, 1094, 1080, 1112, 1072, 32, 1086, 1087, 1072, 1089, 1085, 1086, 1089, 1090,
        1080, 44, 32, 1087, 1088, 1086, 1094, 1077, 1085, 1072, 32, 1088, 1080, 1079, 1080,
        1082, 1072, 32, 1087, 1086, 32, 1073, 1077, 1079, 1073, 1077, 1076, 1085, 1086, 1089,
        1090, 32, 1080, 32, 1079, 1076, 1088, 1072, 1074, 1113, 1077, 32, 1079, 1072, 1087,
        1086, 1089, 1083, 1077, 1085, 1080, 1093, 44, 32, 1091, 1090, 1074, 1088, 1106, 1080,
        1074, 1072, 1114, 1077, 32, 1084, 1077, 1088, 1072, 32, 1079, 1072, 32, 1086, 1090,
        1082, 1083, 1072, 1114, 1072, 1114, 1077, 32, 1088, 1080, 1079, 1080, 1082, 1072, 32,
        1080, 1083, 1080, 32, 1114, 1080, 1093, 1086, 1074, 1086, 32, 1089, 1074, 1086, 1106,
        1077, 1114, 1077, 32, 1085, 1072, 32, 1087, 1088, 1080, 1093, 1074, 1072, 1090, 1113,
        1080, 1074, 32, 1085, 1080, 1074, 1086, 46]) None]"

text \<open>2. PODACI O POSLODAVCU (FR-036), lines 76 to 104.\<close>

definition cells_data :: "(pystr \<times> pystr) list" where
  "cells_data = [
     (([1053, 1072, 1079, 1080, 1074, 58]), (asc ''{{company.name}}'')),
     (([1040, 1076, 1088, 1077, 1089, 1072, 58]), (asc ''{{company.address}}'')),
     (([1055, 1048, 1041, 58]), (asc ''{{company.pib}}'')),
     (([1052, 1072, 1090, 1080, 1095, 1085, 1080, 32, 1073, 1088, 1086, 1112, 58]), (asc ''{{company.registration_number}}'')),
     (([1064, 1080, 1092, 1088, 1072, 32, 1076, 1077, 1083, 1072, 1090, 1085, 1086, 1089, 1090,
       1080, 58]), (asc ''{{company.activity_code}}'')),
     (([1044, 1080, 1088, 1077, 1082, 1090, 1086, 1088, 58]), (asc ''{{company.director}}'')),
     (([1054, 1076, 1075, 1086, 1074, 1086, 1088, 1085, 1086, 32, 1083, 1080, 1094, 1077, 32,
       1079, 1072, 32, 1041, 1047, 1056, 58]), (asc ''{{company.bzr_responsible_person}}''))]"

definition cr_employer :: stmt where
  "cr_employer = seq [
     add_heading (asc ''2. '' @ [1055, 1054, 1044, 1040, 1062, 1048, 32, 1054, 32, 1055, 1054,
        1057, 1051, 1054, 1044, 1040, 1042, 1062, 1059]) 1,
     add_table 7 2 (\<lambda>employer_table. seq [
       set_table_style employer_table (asc ''Table Grid''),
       fill_rows employer_table 0 cells_data]),
     add_page_break]"

text \<open>3. SISTEMATIZACIJA RADNIH MESTA (FR-038), lines 109 to 150.\<close>

definition position_data :: "(pystr \<times> pystr) list" where
  "position_data = [
     (([1064, 1080, 1092, 1088, 1072, 58]), (asc ''{{position_code}}'')),
     (([1054, 1088, 1075, 1072, 1085, 1080, 1079, 1072, 1094, 1080, 1086, 1085, 1072, 32, 1112,
       1077, 1076, 1080, 1085, 1080, 1094, 1072, 58]), (asc ''{{department}}'')),
     (([1055, 1086, 1090, 1088, 1077, 1073, 1085, 1072, 32, 1089, 1090, 1088, 1091, 1095, 1085,
       1072, 32, 1089, 1087, 1088, 1077, 1084, 1072, 58]), (asc ''{{required_education}}'')),
     (([1041, 1088, 1086, 1112, 32, 1080, 1079, 1074, 1088, 1096, 1080, 1083, 1072, 1094, 1072,
       32, 40, 1052, 47, 1046, 41, 58]), (asc ''{{employees_male}}/{{employees_female}}'')),
     (([1056, 1072, 1076, 1085, 1080, 32, 1089, 1072, 1090, 1080, 32, 40, 1076, 1085, 1077,
       1074, 1085, 1086, 41, 58]), (asc ''{{work_hours_daily}}'')),
     (([1054, 1087, 1080, 1089, 32, 1087, 1086, 1089, 1083, 1086, 1074, 1072, 58]), (asc ''{{job_description}}'')),
     (([1056, 1072, 1076, 1085, 1080, 32, 1087, 1088, 1086, 1089, 1090, 1086, 1088, 58]), (asc ''{{workspace}}''))]"

definition cr_systematization :: stmt where
  "cr_systematization = seq [
     add_heading (asc ''3. '' @ [1057, 1048, 1057, 1058, 1045, 1052, 1040, 1058, 1048, 1047,
        1040, 1062, 1048, 1032, 1040, 32, 1056, 1040, 1044, 1053, 1048, 1061, 32, 1052, 1045,
        1057, 1058, 1040]) 1,
     add_paragraph ([1058, 1072, 1073, 1077, 1083, 1072, 1088, 1085, 1080, 32, 1087, 1088, 1077,
        1075, 1083, 1077, 1076, 32, 1089, 1074, 1080, 1093, 32, 1088, 1072, 1076, 1085, 1080,
        1093, 32, 1084, 1077, 1089, 1090, 1072, 58]) None,
     add_paragraph [] None,
     add_paragraph (asc ''{{#positions}}'') None,
     add_heading ([1056, 1072, 1076, 1085, 1086, 32, 1084, 1077, 1089, 1090, 1086] @
        asc '': {{position_name}}'') 2,
     add_table 7 2 (\<lambda>position_table. seq [
       set_table_style position_table (asc ''Table Grid''),
       fill_rows position_table 0 position_data]),
     add_paragraph [] None,
     add_paragraph (asc ''{{/positions}}'') None,
     add_page_break]"

text \<open>4. PROCENA RIZIKA (FR-039), lines 155 to 218.\<close>

definition risk_data :: "(pystr \<times> pystr) list" where
  "risk_data = [
     (([1054, 1087, 1072, 1089, 1085, 1086, 1089, 1090, 58]), (asc ''{{hazard.hazard_code}} - {{hazard.hazard_name_sr}}'')),
     ([], []),
     (([1048, 1053, 1048, 1062, 1048, 1032, 1040, 1051, 1053, 1048, 32, 1056, 1048, 1047, 1048,
       1050, 58]), []),
     (([32, 32, 1045, 32, 40, 1080, 1085, 1080, 1094, 1080, 1112, 1072, 1083, 1085, 1080, 41,
       58]), (asc ''{{initial_e}}'')),
     (([32, 32, 1055, 32, 40, 1080, 1085, 1080, 1094, 1080, 1112, 1072, 1083, 1085, 1072, 41,
       58]), (asc ''{{initial_p}}'')),
     (([32, 32, 1060, 32, 40, 1080, 1085, 1080, 1094, 1080, 1112, 1072, 1083, 1085, 1072, 41,
       58]), (asc ''{{initial_f}}'')),
     ((asc ''  Ri = '' @ [1045, 32, 215, 32, 1055, 32, 215, 32, 1060, 58]), (asc ''{{initial_ri}}'')),
     ([], []),
     (([1050, 1086, 1088, 1077, 1082, 1090, 1080, 1074, 1085, 1077, 32, 1084, 1077, 1088, 1077,
       58]), (asc ''{{corrective_measures}}'')),
     ([], []),
     (([1056, 1045, 1047, 1048, 1044, 1059, 1040, 1051, 1053, 1048, 32, 1056, 1048, 1047, 1048,
       1050, 58]), []),
     (([32, 32, 1045, 32, 40, 1088, 1077, 1079, 1080, 1076, 1091, 1072, 1083, 1085, 1080, 41,
       58]), (asc ''{{residual_e}}'')),
     (([32, 32, 1055, 32, 40, 1088, 1077, 1079, 1080, 1076, 1091, 1072, 1083, 1085, 1072, 41,
       58]), (asc ''{{residual_p}}'')),
     (([32, 32, 1060, 32, 40, 1088, 1077, 1079, 1080, 1076, 1091, 1072, 1083, 1085, 1072, 41,
       58]), (asc ''{{residual_f}}'')),
     ((asc ''  R = '' @ [1045, 32, 215, 32, 1055, 32, 215, 32, 1060, 58]), (asc ''{{residual_r}}'')),
     (([1054, 1076, 1075, 1086, 1074, 1086, 1088, 1085, 1086, 32, 1083, 1080, 1094, 1077, 58]), (asc ''{{responsible_person}}''))]"

definition cr_risk_assessment :: stmt where
  "cr_risk_assessment = seq [
     add_heading (asc ''4. '' @ [1055, 1056, 1054, 1062, 1045, 1053, 1040, 32, 1056, 1048, 1047,
        1048, 1050, 1040, 32, 1055, 1054, 32, 1056, 1040, 1044, 1053, 1048, 1052, 32, 1052,
        1045, 1057, 1058, 1048, 1052, 1040]) 1,
     add_paragraph
       ([1055, 1088, 1086, 1094, 1077, 1085, 1072, 32, 1088, 1080, 1079, 1080, 1082, 1072, 32,
        1089, 1087, 1088, 1086, 1074, 1077, 1076, 1077, 1085, 1072, 32, 1112, 1077, 32, 1087,
        1088, 1080, 1084, 1077, 1085, 1086, 1084, 32, 1084, 1077, 1090, 1086, 1076, 1086, 1083,
        1086, 1075, 1080, 1112, 1077, 32, 1045, 32, 215, 32, 1055, 32, 215, 32, 1060, 58, 10,
        10, 8226, 32, 1045, 32, 40, 1045, 1092, 1077, 1082, 1072, 1090] @ asc '') - '' @ [1086,
        1079, 1073, 1080, 1113, 1085, 1086, 1089, 1090, 32, 1087, 1086, 1089, 1083, 1077, 1076,
        1080, 1094, 1077] @ asc '' (1-6)'' @ [10, 8226, 32, 1055, 32, 40, 1042, 1077, 1088,
        1086, 1074, 1072, 1090, 1085, 1086, 1115, 1072] @ asc '') - '' @ [1074, 1077, 1088,
        1086, 1074, 1072, 1090, 1085, 1086, 1115, 1072, 32, 1085, 1072, 1089, 1090, 1072, 1085,
        1082, 1072, 32, 1096, 1090, 1077, 1090, 1085, 1086, 1075, 32, 1076, 1086, 1075, 1072,
        1106, 1072, 1112, 1072] @ asc '' (1-6)'' @ [10, 8226, 32, 1060, 32, 40, 1060, 1088,
        1077, 1082, 1074, 1077, 1085, 1094, 1080, 1112, 1072] @ asc '') - '' @ [1091, 1095,
        1077, 1089, 1090, 1072, 1083, 1086, 1089, 1090, 32, 1080, 1079, 1083, 1072, 1075, 1072,
        1114, 1072, 32, 1086, 1087, 1072, 1089, 1085, 1086, 1089, 1090, 1080] @ asc '' (1-6)'' @
        [10, 8226] @ asc '' Ri ('' @ [1048, 1085, 1080, 1094, 1080, 1112, 1072, 1083, 1085,
        1080, 32, 1088, 1080, 1079, 1080, 1082] @ asc '') = '' @ [1045, 32, 215, 32, 1055, 32,
        215, 32, 1060, 32, 40, 1087, 1088, 1077, 32, 1087, 1088, 1080, 1084, 1077, 1085, 1077,
        32, 1084, 1077, 1088, 1072, 41, 10, 8226] @ asc '' R ('' @ [1056, 1077, 1079, 1080,
        1076, 1091, 1072, 1083, 1085, 1080, 32, 1088, 1080, 1079, 1080, 1082] @ asc '') = '' @
        [1045, 32, 215, 32, 1055, 32, 215, 32, 1060, 32, 40, 1085, 1072, 1082, 1086, 1085, 32,
        1087, 1088, 1080, 1084, 1077, 1085, 1077, 32, 1084, 1077, 1088, 1072, 41]) None,
     add_paragraph [] None,
     add_paragraph (asc ''{{#positions}}'') None,
     add_heading ([1056, 1072, 1076, 1085, 1086, 32, 1084, 1077, 1089, 1090, 1086] @
        asc '': {{position_name}}'') 2,
     add_paragraph (asc ''{{#risks}}'') None,
     add_table 16 2 (\<lambda>risk_table. seq [
       set_table_style risk_table (asc ''Table Grid''),
       fill_rows risk_table 0 risk_data]),
     add_paragraph [] None,
     add_paragraph (asc ''{{/risks}}'') None,
     add_paragraph (asc ''{{/positions}}'') None,
     add_page_break]"

text \<open>5. ZBIRNI PRIKAZ (FR-040), lines 223 to 249.\<close>

definition cr_headers :: "pystr list" where
  "cr_headers = [([1056, 1072, 1076, 1085, 1086, 32, 1084, 1077, 1089, 1090, 1086]), ([1054, 1087, 1072, 1089, 1085, 1086, 1089, 1090]), (asc ''Ri''), (asc ''R''),
     ([1053, 1080, 1074, 1086, 32, 1088, 1080, 1079, 1080, 1082, 1072])]"

definition cr_summary :: stmt where
  "cr_summary = seq [
     add_heading (asc ''5. '' @ [1047, 1041, 1048, 1056, 1053, 1048, 32, 1055, 1056, 1048, 1050,
        1040, 1047, 32, 1055, 1056, 1054, 1062, 1045, 1053, 1045, 32, 1056, 1048, 1047, 1048,
        1050, 1040]) 1,
     add_paragraph ([1058, 1072, 1073, 1077, 1083, 1072, 1088, 1085, 1080, 32, 1087, 1088, 1077,
        1075, 1083, 1077, 1076, 32, 1089, 1074, 1080, 1093, 32, 1087, 1088, 1086, 1094, 1077,
        1114, 1077, 1085, 1080, 1093, 32, 1088, 1080, 1079, 1080, 1082, 1072, 58]) None,
     add_table 1 5 (\<lambda>summary_table. seq [
       set_table_style summary_table (asc ''Table Grid''),
       fill_row summary_table 0 0 cr_headers]),
     add_paragraph [] None,
     add_paragraph (asc ''{{#summary_risks}}'') None,
     add_paragraph
       (asc ''{{position_name}} | {{hazard_name}} | {{initial_ri}} | {{residual_r}} | {{risk_level}}'') None,
     add_paragraph (asc ''{{/summary_risks}}'') None,
     add_page_break]"

text \<open>6. LZO (FR-041a), lines 254 to 274.\<close>

definition cr_ppe :: stmt where
  "cr_ppe = seq [
     add_heading (asc ''6. '' @ [1051, 1048, 1063, 1053, 1040, 32, 1047, 1040, 1064, 1058, 1048,
        1058, 1053, 1040, 32, 1054, 1055, 1056, 1045, 1052, 1040]) 1,
     add_paragraph ([1059, 1090, 1074, 1088, 1106, 1077, 1085, 1077, 32, 1087, 1086, 1090, 1088,
        1077, 1073, 1077, 32, 1079, 1072, 32, 1083, 1080, 1095, 1085, 1086, 1084, 32, 1079,
        1072, 1096, 1090, 1080, 1090, 1085, 1086, 1084, 32, 1086, 1087, 1088, 1077, 1084, 1086,
        1084, 58]) None,
     add_paragraph (asc ''{{#positions}}'') None,
     add_paragraph (asc ''{{#has_ppe}}'') None,
     add_heading ([1056, 1072, 1076, 1085, 1086, 32, 1084, 1077, 1089, 1090, 1086] @
        asc '': {{position_name}}'') 3,
     add_paragraph (asc ''{{#ppe_items}}'') None,
     add_paragraph ([8226] @ asc '' {{ppe_type}} ({{ppe_standard}}) - {{quantity}} '' @ [1082,
        1086, 1084, 46]) None,
     add_paragraph (asc ''{{/ppe_items}}'') None,
     add_paragraph (asc ''{{/has_ppe}}'') None,
     add_paragraph (asc ''{{/positions}}'') None,
     add_page_break]"

text \<open>7. OBUKA (FR-041b), lines 279 to 299.\<close>

definition cr_training :: stmt where
  "cr_training = seq [
     add_heading (asc ''7. '' @ [1054, 1041, 1059, 1050, 1040, 32, 1047, 1040, 1055, 1054, 1057,
        1051, 1045, 1053, 1048, 1061]) 1,
     add_paragraph ([1059, 1090, 1074, 1088, 1106, 1077, 1085, 1080, 32, 1079, 1072, 1093, 1090,
        1077, 1074, 1080, 32, 1079, 1072, 32, 1086, 1073, 1091, 1082, 1086, 1084, 32, 1079,
        1072, 1087, 1086, 1089, 1083, 1077, 1085, 1080, 1093, 58]) None,
     add_paragraph (asc ''{{#positions}}'') None,
     add_paragraph (asc ''{{#has_training}}'') None,
     add_heading ([1056, 1072, 1076, 1085, 1086, 32, 1084, 1077, 1089, 1090, 1086] @
        asc '': {{position_name}}'') 3,
     add_paragraph (asc ''{{#training_requirements}}'') None,
     add_paragraph
       ([8226] @ asc '' {{training_type}} - '' @ [1092, 1088, 1077, 1082, 1074, 1077, 1085,
        1094, 1080, 1112, 1072] @ asc '': {{frequency_months}} '' @ [1084, 1077, 1089, 1077,
        1094, 1080, 44, 32, 1090, 1088, 1072, 1112, 1072, 1114, 1077] @
        asc '': {{duration_hours}}h'') None,
     add_paragraph (asc ''{{/training_requirements}}'') None,
     add_paragraph (asc ''{{/has_training}}'') None,
     add_paragraph (asc ''{{/positions}}'') None,
     add_page_break]"

text \<open>8. LEKARSKI PREGLEDI (FR-041c), lines 304 to 324.\<close>

definition cr_medical :: stmt where
  "cr_medical = seq [
     add_heading (asc ''8. '' @ [1051, 1045, 1050, 1040, 1056, 1057, 1050, 1048, 32, 1055, 1056,
        1045, 1043, 1051, 1045, 1044, 1048]) 1,
     add_paragraph ([1059, 1090, 1074, 1088, 1106, 1077, 1085, 1080, 32, 1079, 1072, 1093, 1090,
        1077, 1074, 1080, 32, 1079, 1072, 32, 1083, 1077, 1082, 1072, 1088, 1089, 1082, 1080,
        1084, 32, 1087, 1088, 1077, 1075, 1083, 1077, 1076, 1080, 1084, 1072, 58]) None,
     add_paragraph (asc ''{{#positions}}'') None,
     add_paragraph (asc ''{{#has_medical}}'') None,
     add_heading ([1056, 1072, 1076, 1085, 1086, 32, 1084, 1077, 1089, 1090, 1086] @
        asc '': {{position_name}}'') 3,
     add_paragraph (asc ''{{#medical_exams}}'') None,
     add_paragraph
       ([8226] @ asc '' {{exam_type}} - '' @ [1092, 1088, 1077, 1082, 1074, 1077, 1085, 1094,
        1080, 1112, 1072] @ asc '': {{frequency_months}} '' @ [1084, 1077, 1089, 1077, 1094,
        1080, 44, 32, 1086, 1073, 1080, 1084] @ asc '': {{exam_scope}}'') None,
     add_paragraph (asc ''{{/medical_exams}}'') None,
     add_paragraph (asc ''{{/has_medical}}'') None,
     add_paragraph (asc ''{{/positions}}'') None,
     add_page_break]"

text \<open>9. ZAKLJUCAK (FR-042a), lines 329 to 343.\<close>

definition cr_conclusion :: stmt where
  "cr_conclusion = seq [
     add_heading (asc ''9. '' @ [1047, 1040, 1050, 1033, 1059, 1063, 1040, 1050]) 1,
     add_paragraph
       ([1054, 1074, 1072, 1112, 32, 1040, 1082, 1090, 32, 1086, 32, 1087, 1088, 1086, 1094,
        1077, 1085, 1080, 32, 1088, 1080, 1079, 1080, 1082, 1072, 32, 1086, 1073, 1091, 1093,
        1074, 1072, 1090, 1072, 32, 1089, 1074, 1077, 32, 1080, 1076, 1077, 1085, 1090, 1080,
        1092, 1080, 1082, 1086, 1074, 1072, 1085, 1077, 32, 1086, 1087, 1072, 1089, 1085, 1086,
        1089, 1090, 1080, 32, 1085, 1072, 32, 1088, 1072, 1076, 1085, 1080, 1084, 32, 1084,
        1077, 1089, 1090, 1080, 1084, 1072, 32, 1087, 1086, 1089, 1083, 1086, 1076, 1072, 1074,
        1094, 1072] @ asc '' {{company.name}}. '' @ [1057, 1087, 1088, 1086, 1074, 1077, 1076,
        1077, 1085, 1086, 1084, 32, 1087, 1088, 1086, 1094, 1077, 1085, 1086, 1084, 32, 1088,
        1080, 1079, 1080, 1082, 1072, 32, 1091, 1090, 1074, 1088, 1106, 1077, 1085, 1077, 32,
        1089, 1091, 32, 1084, 1077, 1088, 1077, 32, 1079, 1072, 32, 1073, 1077, 1079, 1073,
        1077, 1076, 1072, 1085, 32, 1080, 32, 1079, 1076, 1088, 1072, 1074, 32, 1088, 1072,
        1076, 44, 32, 1082, 1086, 1112, 1077, 32, 1112, 1077, 32, 1087, 1086, 1089, 1083, 1086,
        1076, 1072, 1074, 1072, 1094, 32, 1076, 1091, 1078, 1072, 1085, 32, 1076, 1072, 32,
        1089, 1087, 1088, 1086, 1074, 1077, 1076, 1077, 32, 1080, 32, 1082, 1086, 1085, 1090,
        1080, 1085, 1091, 1080, 1088, 1072, 1085, 1086, 32, 1087, 1088, 1072, 1090, 1080, 32,
        1114, 1080, 1093, 1086, 1074, 1091, 32, 1077, 1092, 1080, 1082, 1072, 1089, 1085, 1086,
        1089, 1090, 46, 10, 10, 1056, 1077, 1074, 1080, 1079, 1080, 1112, 1072, 32, 1040, 1082,
        1090, 1072, 32, 1086, 32, 1087, 1088, 1086, 1094, 1077, 1085, 1080, 32, 1088, 1080,
        1079, 1080, 1082, 1072, 32, 1074, 1088, 1096, 1080, 1115, 1077, 32, 1089, 1077, 32,
        1087, 1077, 1088, 1080, 1086, 1076, 1080, 1095, 1085, 1086, 32, 40, 1084, 1080, 1085,
        1080, 1084, 1091, 1084, 32, 1112, 1077, 1076, 1085, 1086, 1084, 32, 1075, 1086, 1076,
        1080, 1096, 1114, 1077] @ asc ''), '' @ [1082, 1072, 1086, 32, 1080, 32, 1087, 1088,
        1080, 1083, 1080, 1082, 1086, 1084, 32, 1079, 1085, 1072, 1095, 1072, 1112, 1085, 1080,
        1093, 32, 1087, 1088, 1086, 1084, 1077, 1085, 1072, 32, 1091, 32, 1090, 1077, 1093,
        1085, 1086, 1083, 1086, 1075, 1080, 1112, 1080, 32, 1088, 1072, 1076, 1072, 44, 32,
        1086, 1088, 1075, 1072, 1085, 1080, 1079, 1072, 1094, 1080, 1112, 1080, 32, 1088, 1072,
        1076, 1072, 32, 1080, 1083, 1080, 32, 1085, 1072, 1082, 1086, 1085, 32, 1087, 1086,
        1074, 1088, 1077, 1076, 1072, 32, 1085, 1072, 32, 1088, 1072, 1076, 1091, 46]) None,
     add_paragraph [] None,
     add_paragraph [] None]"

text \<open>10. POTPISI (FR-042), lines 348 to 387; \<^verbatim>\<open>'_' * 40\<close> is forty underscores.\<close>

definition sig_data :: "(pystr \<times> pystr) list" where
  "sig_data = [
     (([1057, 1072, 1089, 1090, 1072, 1074, 1113, 1072, 1095, 32, 1072, 1082, 1090, 1072, 58]), (asc ''{{company.bzr_responsible_person}}'')),
     (([1055, 1086, 1090, 1087, 1080, 1089, 58]), replicate 40 95),
     (([1044, 1072, 1090, 1091, 1084, 32, 1080, 1079, 1088, 1072, 1076, 1077, 58]), (asc ''{{generated_date}}'')),
     (([1044, 1080, 1088, 1077, 1082, 1090, 1086, 1088, 58]), (asc ''{{company.director}}''))]"

definition cr_signatures :: stmt where
  "cr_signatures = seq [
     add_heading (asc ''10. '' @ [1055, 1054, 1058, 1055, 1048, 1057, 1048]) 1,
     add_paragraph ([1054, 1074, 1072, 1112, 32, 1040, 1082, 1090, 32, 1086, 32, 1087, 1088,
        1086, 1094, 1077, 1085, 1080, 32, 1088, 1080, 1079, 1080, 1082, 1072, 32, 1089, 1072,
        1095, 1080, 1085, 1080, 1086, 32, 1112, 1077, 58]) None,
     add_paragraph [] None,
     add_table 4 2 (\<lambda>signature_table. seq [
       set_table_style signature_table (asc ''Table Grid''),
       fill_rows signature_table 0 sig_data]),
     add_paragraph [] None,
     add_paragraph [] None,
     add_paragraph
       ([1053, 1072, 1087, 1086, 1084, 1077, 1085, 1072, 58, 32, 1054, 1074, 1072, 1112, 32,
        1076, 1086, 1082, 1091, 1084, 1077, 1085, 1090, 32, 1112, 1077, 32, 1075, 1077, 1085,
        1077, 1088, 1080, 1089, 1072, 1085, 32, 1072, 1091, 1090, 1086, 1084, 1072, 1090, 1089,
        1082, 1080, 32, 1087, 1086, 1084, 1086, 1115, 1091] @ asc '' BZR Portal '' @ [1087,
        1083, 1072, 1090, 1092, 1086, 1088, 1084, 1077, 46]) None]"

definition cr_build :: stmt where
  "cr_build = seq [
     cr_cover_page,
     cr_intro,
     cr_employer,
     cr_systematization,
     cr_risk_assessment,
     cr_summary,
     cr_ppe,
     cr_training,
     cr_medical,
     cr_conclusion,
     cr_signatures]"

definition cr_output_path :: path where
  "cr_output_path = (asc ''backend/templates/Akt_Procena_Rizika_Template.docx'')"

definition cr_prints :: "document \<Rightarrow> pystr list" where
  "cr_prints doc = [
     (asc ''Template successfully created: '') @ cr_output_path,
     (asc ''Document contains:''),
     (asc ''   - '') @ str_nat (len_paragraphs doc) @ (asc '' paragraphs''),
     (asc ''   - '') @ str_nat (len_tables doc) @ (asc '' tables''),
     (asc ''   - Mustache placeholders for dynamic data''),
     (asc ''   - Serbian Cyrillic font (Times New Roman)''),
     (asc ''   - All FR-034 to FR-042 sections included''),
     ([10] @ asc ''T084 COMPLETED!'')]"

text \<open>
  The module from its first line to its last: the imports, \<^verbatim>\<open>Document()\<close>, the builder
  calls, \<^verbatim>\<open>doc.save\<close> and eight prints. No statement is inside a \<^verbatim>\<open>try\<close>.
\<close>

definition create_template_py :: "env \<Rightarrow> world \<Rightarrow> exc option \<times> world" where
  "create_template_py env w =
     (case import_docx env of
        Some e \<Rightarrow> (Some e, w)
      | None \<Rightarrow>
          (case new_Document env of
             Some e \<Rightarrow> (Some e, w)
           | None \<Rightarrow>
               (case cr_build Document of
                  Inl e \<Rightarrow> (Some e, w)
                | Inr doc \<Rightarrow>
                    (case doc_save env cr_output_path doc w of
                       Inl e \<Rightarrow> (Some e, w)
                     | Inr w' \<Rightarrow> (None, fold print (cr_prints doc) w')))))"


section \<open>backend/scripts/generate-template.py\<close>

text \<open>
  The helpers of the module. Of their arguments the model keeps those that decide what
  text is added (\<open>font_size\<close>, \<open>bold\<close> and \<open>align\<close> only format it).
\<close>

definition add_header_text :: "nat \<Rightarrow> pystr \<Rightarrow> stmt" where
  "add_header_text paragraph text = add_run paragraph text"

definition add_paragraph_with_label :: "pystr \<Rightarrow> pystr \<Rightarrow> bool \<Rightarrow> stmt" where
  "add_paragraph_with_label label placeholder bold_label =
     new_paragraph None (\<lambda>p. seq [
       (if bold_label then add_run p (label @ asc '': '') else seq []),
       add_run p placeholder])"

definition crt_headers :: "pystr list" where
  "crt_headers = [([1056, 46, 1041, 1088, 46]), ([1054, 1087, 1072, 1089, 1085, 1086, 1089, 1090]), ([1050, 1072, 1090, 1077, 1075, 1086, 1088, 1080,
        1112, 1072]), (asc ''E''), [1055], [1060], (asc ''Ri''),
     ([1050, 1086, 1088, 1077, 1082, 1090, 1080, 1074, 1085, 1077, 32, 1084, 1077, 1088, 1077]), (asc ''E''), [1055], [1060], (asc ''R''), ([1053, 1080, 1074,
        1086, 32, 1088, 1080, 1079, 1080, 1082, 1072])]"

definition crt_placeholders :: "pystr list" where
  "crt_placeholders = [
     (asc ''{{rowNumber}}''),
     (asc ''{{hazardName}}''),
     (asc ''{{hazardCategory}}''),
     (asc ''{{ei}}''),
     (asc ''{{pi}}''),
     (asc ''{{fi}}''),
     (asc ''{{ri}}''),
     (asc ''{{correctiveMeasures}}''),
     (asc ''{{e}}''),
     (asc ''{{p}}''),
     (asc ''{{f}}''),
     (asc ''{{r}}''),
     (asc ''{{riskLevel}}'')]"

text \<open>\<^verbatim>\<open>create_risk_table(doc)\<close>, lines 41 to 85. No statement of the module calls it.\<close>

definition create_risk_table :: stmt where
  "create_risk_table = seq [
     new_paragraph None (\<lambda>p. add_run p ([1058, 1072, 1073, 1077, 1083, 1072, 32, 1087,
        1088, 1086, 1094, 1077, 1085, 1077, 32, 1088, 1080, 1079, 1080, 1082, 1072, 58])),
     add_paragraph [] None,
     add_table 1 13 (\<lambda>table. seq [
       set_table_style table (asc ''Light Grid Accent 1''),
       fill_row table 0 0 crt_headers,
       add_row table (\<lambda>row. fill_row table row 0 crt_placeholders)])]"

text \<open>\<^verbatim>\<open>generate_template()\<close>, cut at its section banners. 1. Title Page, lines 100 to 111.\<close>

definition gt_title_page :: stmt where
  "gt_title_page = seq [
     new_paragraph None (\<lambda>title. add_header_text title ([1040, 1050, 1058, 32, 1054, 32,
        1055, 1056, 1054, 1062, 1045, 1053, 1048, 32, 1056, 1048, 1047, 1048, 1050, 1040])),
     add_paragraph [] None,
     add_paragraph_with_label ([1055, 1088, 1077, 1076, 1091, 1079, 1077, 1115, 1077]) (asc ''{{company.name}}'') True,
     add_paragraph_with_label ([1055, 1048, 1041]) (asc ''{{company.pib}}'') True,
     add_paragraph_with_label ([1040, 1076, 1088, 1077, 1089, 1072]) (asc ''{{company.address}}'') True,
     add_paragraph [] None,
     add_paragraph_with_label ([1044, 1072, 1090, 1091, 1084, 32, 1080, 1079, 1088, 1072, 1076,
        1077]) (asc ''{{metadata.generatedDate}}'') True,
     add_paragraph_with_label ([1042, 1072, 1078, 1085, 1086, 1089, 1090, 32, 1072, 1082, 1090,
        1072]) (asc ''{{metadata.validityPeriod}}'') True,
     add_page_break]"

text \<open>2. Company Information, lines 116 to 131.\<close>

definition gt_company_information :: stmt where
  "gt_company_information = seq [
     new_paragraph None (\<lambda>section1. add_header_text section1
       (asc ''I. '' @ [1054, 1055, 1064, 1058, 1048, 32, 1055, 1054, 1044, 1040, 1062, 1048, 32,
        1054, 32, 1055, 1054, 1057, 1051, 1054, 1044, 1040, 1042, 1062, 1059])),
     add_paragraph [] None,
     add_paragraph_with_label ([1053, 1072, 1079, 1080, 1074, 32, 1087, 1088, 1077, 1076, 1091,
        1079, 1077, 1115, 1072]) (asc ''{{company.name}}'') True,
     add_paragraph_with_label ([1055, 1048, 1041]) (asc ''{{company.pib}}'') True,
     add_paragraph_with_label ([1040, 1076, 1088, 1077, 1089, 1072, 32, 1089, 1077, 1076, 1080,
        1096, 1090, 1072]) (asc ''{{company.address}}'') True,
     add_paragraph_with_label ([1043, 1088, 1072, 1076]) (asc ''{{company.city}}'') True,
     add_paragraph_with_label ([1064, 1080, 1092, 1088, 1072, 32, 1076, 1077, 1083, 1072, 1090,
        1085, 1086, 1089, 1090, 1080]) (asc ''{{company.activityCode}}'') True,
     add_paragraph_with_label ([1054, 1087, 1080, 1089, 32, 1076, 1077, 1083, 1072, 1090, 1085,
        1086, 1089, 1090, 1080]) (asc ''{{company.activityDescription}}'') True,
     add_paragraph_with_label ([1041, 1088, 1086, 1112, 32, 1079, 1072, 1087, 1086, 1089, 1083,
        1077, 1085, 1080, 1093]) (asc ''{{company.employeeCount}}'') True,
     add_paragraph [] None,
     add_paragraph_with_label ([1044, 1080, 1088, 1077, 1082, 1090, 1086, 1088]) (asc ''{{company.director}}'') True,
     add_paragraph_with_label ([1051, 1080, 1094, 1077, 32, 1079, 1072, 1076, 1091, 1078, 1077,
        1085, 1086, 32, 1079, 1072, 32, 1041, 1047, 1056])
       (asc ''{{company.bzrResponsiblePerson}}'') True,
     add_page_break]"

text \<open>3. Position Systematization, lines 136 to 159.\<close>

definition gt_position_systematization :: stmt where
  "gt_position_systematization = seq [
     new_paragraph None (\<lambda>section2. add_header_text section2
       (asc ''II. '' @ [1057, 1048, 1057, 1058, 1045, 1052, 1040, 1058, 1048, 1047, 1040, 1062,
        1048, 1032, 1040, 32, 1056, 1040, 1044, 1053, 1048, 1061, 32, 1052, 1045, 1057, 1058,
        1040])),
     add_paragraph [] None,
     add_paragraph (asc ''{{#positions}}'') None,
     add_paragraph [] None,
     new_paragraph None (\<lambda>p. add_header_text p
       ([1056, 1072, 1076, 1085, 1086, 32, 1084, 1077, 1089, 1090, 1086] @
        asc '': {{positionName}}'')),
     add_paragraph_with_label ([1054, 1088, 1075, 1072, 1085, 1080, 1079, 1072, 1094, 1080,
        1086, 1085, 1072, 32, 1112, 1077, 1076, 1080, 1085, 1080, 1094, 1072])
       (asc ''{{department}}'') True,
     new_paragraph None (\<lambda>p. seq [
       add_run p ([1041, 1088, 1086, 1112, 32, 1079, 1072, 1087, 1086, 1089, 1083, 1077, 1085,
        1080, 1093, 58, 32]),
       add_run p
         ([1059, 1082, 1091, 1087, 1085, 1086] @ asc '': {{totalCount}}, '' @ [1052, 1091, 1096,
        1082, 1072, 1088, 1094, 1080] @ asc '': {{maleCount}}, '' @ [1046, 1077, 1085, 1077] @
        asc '': {{femaleCount}}'')]),
     add_paragraph_with_label ([1055, 1086, 1090, 1088, 1077, 1073, 1085, 1072, 32, 1089, 1090,
        1088, 1091, 1095, 1085, 1072, 32, 1089, 1087, 1088, 1077, 1084, 1072])
       (asc ''{{requiredEducation}}'') True,
     add_paragraph_with_label ([1056, 1072, 1076, 1085, 1086, 32, 1080, 1089, 1082, 1091, 1089,
        1090, 1074, 1086]) (asc ''{{requiredExperience}}'') True,
     add_paragraph [] None,
     add_paragraph (asc ''{{/positions}}'') None,
     add_page_break]"

text \<open>4. Risk Assessment, lines 164 to 247.\<close>

definition gt_risk_assessment :: stmt where
  "gt_risk_assessment = seq [
     new_paragraph None (\<lambda>section3. add_header_text section3
       (asc ''III. '' @ [1055, 1056, 1054, 1062, 1045, 1053, 1040, 32, 1056, 1048, 1047, 1048,
        1050, 1040, 32, 1055, 1054, 32, 1056, 1040, 1044, 1053, 1048, 1052, 32, 1052, 1045,
        1057, 1058, 1048, 1052, 1040])),
     add_paragraph [] None,
     add_paragraph (asc ''{{#positions}}'') None,
     new_paragraph None (\<lambda>p. add_header_text p
       ([1056, 1072, 1076, 1085, 1086, 32, 1084, 1077, 1089, 1090, 1086] @
        asc '': {{positionName}}'')),
     add_paragraph [] None,
     new_paragraph None (\<lambda>methodology. seq [
       add_run methodology ([1052, 1077, 1090, 1086, 1076, 1086, 1083, 1086, 1075, 1080, 1112,
        1072, 32, 1087, 1088, 1086, 1094, 1077, 1085, 1077, 58, 32]),
       add_run methodology
         (asc ''E ('' @ [1055, 1086, 1089, 1083, 1077, 1076, 1080, 1094, 1077, 41, 32, 215, 32,
        1055, 32, 40, 1042, 1077, 1088, 1086, 1074, 1072, 1090, 1085, 1086, 1115, 1072, 41, 32,
        215, 32, 1060, 32, 40, 1059, 1095, 1077, 1089, 1090, 1072, 1083, 1086, 1089, 1090, 41])]),
     add_paragraph [] None,
     add_paragraph (asc ''{{#risks}}'') None,
     new_paragraph None (\<lambda>risk_box. add_run risk_box
       ([9473, 9473, 9473, 9473, 9473, 9473, 9473, 9473, 9473, 9473, 9473, 9473, 9473, 9473,
        9473, 9473, 9473, 9473, 9473, 9473, 9473, 9473, 9473, 9473, 9473, 9473, 9473, 9473,
        9473, 9473, 9473, 9473, 9473, 9473, 9473, 9473, 9473, 9473, 9473, 9473, 9473, 9473,
        9473, 9473, 9473, 9473, 9473, 9473, 9473, 9473, 9473, 9473, 9473, 9473, 9473, 9473,
        9473, 9473, 9473, 9473])),
     add_paragraph_with_label ([1054, 1087, 1072, 1089, 1085, 1086, 1089, 1090]) (asc ''{{hazardName}} ('' @ [1050, 1086, 1076] @
        asc '': {{hazardCode}})'') True,
     add_paragraph_with_label ([1050, 1072, 1090, 1077, 1075, 1086, 1088, 1080, 1112, 1072]) (asc ''{{hazardCategory}}'') True,
     add_paragraph [] None,
     new_paragraph None (\<lambda>initial. add_run initial
       ([1055, 1054, 1063, 1045, 1058, 1053, 1040, 32, 1055, 1056, 1054, 1062, 1045, 1053, 1040,
        32, 40, 1087, 1088, 1077, 32, 1082, 1086, 1088, 1077, 1082, 1090, 1080, 1074, 1085,
        1080, 1093, 32, 1084, 1077, 1088, 1072, 41, 58])),
     new_paragraph (Some (asc ''List Bullet'')) (\<lambda>p. add_run p
       (asc ''E ('' @ [1055, 1086, 1089, 1083, 1077, 1076, 1080, 1094, 1077] @
        asc ''): {{ei}}, '' @ [1055, 32, 40, 1042, 1077, 1088, 1086, 1074, 1072, 1090, 1085,
        1086, 1115, 1072] @ asc ''): {{pi}}, '' @ [1060, 32, 40, 1059, 1095, 1077, 1089, 1090,
        1072, 1083, 1086, 1089, 1090] @ asc ''): {{fi}}'')),
     new_paragraph (Some (asc ''List Bullet'')) (\<lambda>p. seq [
       add_run p (asc ''Ri ('' @ [1055, 1086, 1095, 1077, 1090, 1085, 1080, 32, 1088, 1080,
        1079, 1080, 1082] @ asc ''): ''),
       add_run p (asc ''{{ri}} {{initialRiskLevel}}'')]),
     add_paragraph [] None,
     new_paragraph None (\<lambda>measures. add_run measures ([1050, 1054, 1056, 1045, 1050,
        1058, 1048, 1042, 1053, 1045, 32, 1052, 1045, 1056, 1045, 58])),
     add_paragraph (asc ''{{correctiveMeasures}}'') None,
     add_paragraph [] None,
     new_paragraph None (\<lambda>residual. add_run residual
       ([1056, 1045, 1047, 1048, 1044, 1059, 1040, 1051, 1053, 1040, 32, 1055, 1056, 1054, 1062,
        1045, 1053, 1040, 32, 40, 1085, 1072, 1082, 1086, 1085, 32, 1082, 1086, 1088, 1077,
        1082, 1090, 1080, 1074, 1085, 1080, 1093, 32, 1084, 1077, 1088, 1072, 41, 58])),
     new_paragraph (Some (asc ''List Bullet'')) (\<lambda>p. add_run p
       (asc ''E ('' @ [1055, 1086, 1089, 1083, 1077, 1076, 1080, 1094, 1077] @
        asc ''): {{e}}, '' @ [1055, 32, 40, 1042, 1077, 1088, 1086, 1074, 1072, 1090, 1085,
        1086, 1115, 1072] @ asc ''): {{p}}, '' @ [1060, 32, 40, 1059, 1095, 1077, 1089, 1090,
        1072, 1083, 1086, 1089, 1090] @ asc ''): {{f}}'')),
     new_paragraph (Some (asc ''List Bullet'')) (\<lambda>p. seq [
       add_run p (asc ''R ('' @ [1056, 1077, 1079, 1080, 1076, 1091, 1072, 1083, 1085, 1080, 32,
        1088, 1080, 1079, 1080, 1082] @ asc ''): ''),
       add_run p (asc ''{{r}} {{riskLevel}}'')]),
     add_paragraph [] None,
     add_paragraph (asc ''{{#isHighRisk}}'') None,
     new_paragraph None (\<lambda>warning. add_run warning
       ([9888, 65039, 32, 1042, 1048, 1057, 1054, 1050, 32, 1056, 1048, 1047, 1048, 1050] @
        asc '' - '' @ [1055, 1086, 1090, 1088, 1077, 1073, 1085, 1072, 32, 1093, 1080, 1090,
        1085, 1072, 32, 1080, 1085, 1090, 1077, 1088, 1074, 1077, 1085, 1094, 1080, 1112, 1072,
        33])),
     add_paragraph (asc ''{{/isHighRisk}}'') None,
     new_paragraph None (\<lambda>risk_box2. add_run risk_box2
       ([9473, 9473, 9473, 9473, 9473, 9473, 9473, 9473, 9473, 9473, 9473, 9473, 9473, 9473,
        9473, 9473, 9473, 9473, 9473, 9473, 9473, 9473, 9473, 9473, 9473, 9473, 9473, 9473,
        9473, 9473, 9473, 9473, 9473, 9473, 9473, 9473, 9473, 9473, 9473, 9473, 9473, 9473,
        9473, 9473, 9473, 9473, 9473, 9473, 9473, 9473, 9473, 9473, 9473, 9473, 9473, 9473,
        9473, 9473, 9473, 9473])),
     add_paragraph [] None,
     add_paragraph (asc ''{{/risks}}'') None,
     add_paragraph [] None,
     add_paragraph (asc ''{{/positions}}'') None,
     add_page_break]"

text \<open>5. Summary, lines 252 to 287.\<close>

definition gt_summary :: stmt where
  "gt_summary = seq [
     new_paragraph None (\<lambda>section4. add_header_text section4 (asc ''IV. '' @ [1047,
        1041, 1048, 1056, 1053, 1048, 32, 1055, 1056, 1045, 1043, 1051, 1045, 1044])),
     add_paragraph [] None,
     new_paragraph None (\<lambda>summary_intro. add_run summary_intro
       ([1053, 1072, 32, 1086, 1089, 1085, 1086, 1074, 1091, 32, 1089, 1087, 1088, 1086, 1074,
        1077, 1076, 1077, 1085, 1077, 32, 1087, 1088, 1086, 1094, 1077, 1085, 1077, 32, 1088,
        1080, 1079, 1080, 1082, 1072, 32, 1091, 1090, 1074, 1088, 1106, 1077, 1085, 1086, 32,
        1112, 1077, 32, 1089, 1083, 1077, 1076, 1077, 1115, 1077, 58])),
     add_paragraph [] None,
     add_paragraph_with_label ([1059, 1082, 1091, 1087, 1072, 1085, 32, 1073, 1088, 1086, 1112,
        32, 1088, 1072, 1076, 1085, 1080, 1093, 32, 1084, 1077, 1089, 1090, 1072])
       (asc ''{{summary.totalPositions}}'') True,
     add_paragraph_with_label ([1059, 1082, 1091, 1087, 1072, 1085, 32, 1073, 1088, 1086, 1112,
        32, 1080, 1076, 1077, 1085, 1090, 1080, 1092, 1080, 1082, 1086, 1074, 1072, 1085, 1080,
        1093, 32, 1088, 1080, 1079, 1080, 1082, 1072])
       (asc ''{{summary.totalRisks}}'') True,
     add_paragraph_with_label ([1056, 1072, 1076, 1085, 1072, 32, 1084, 1077, 1089, 1090, 1072,
        32, 1089, 1072, 32, 1074, 1080, 1089, 1086, 1082, 1080, 1084, 32, 1088, 1080, 1079,
        1080, 1082, 1086, 1084])
       (asc ''{{summary.highRiskPositions}}'') True,
     add_paragraph [] None,
     new_paragraph None (\<lambda>p. add_run p ([1056, 1072, 1089, 1087, 1086, 1088, 1077, 1076,
        32, 1088, 1080, 1079, 1080, 1082, 1072, 32, 1087, 1086, 32, 1085, 1080, 1074, 1086,
        1080, 1084, 1072, 58])),
     new_paragraph (Some (asc ''List Bullet'')) (\<lambda>p. add_run p
       ([1053, 1080, 1079, 1072, 1082, 32, 1088, 1080, 1079, 1080, 1082, 32, 40, 8804] @
        asc ''36): {{summary.lowRiskCount}}'')),
     new_paragraph (Some (asc ''List Bullet'')) (\<lambda>p. add_run p
       ([1057, 1088, 1077, 1076, 1114, 1080, 32, 1088, 1080, 1079, 1080, 1082] @
        asc '' (37-70): {{summary.mediumRiskCount}}'')),
     new_paragraph (Some (asc ''List Bullet'')) (\<lambda>p. add_run p
       ([1042, 1080, 1089, 1086, 1082, 32, 1088, 1080, 1079, 1080, 1082] @
        asc '' (>70): {{summary.highRiskCount}}'')),
     add_paragraph [] None,
     new_paragraph None (\<lambda>conclusion. add_run conclusion
       ([1057, 1074, 1077, 32, 1080, 1076, 1077, 1085, 1090, 1080, 1092, 1080, 1082, 1086, 1074,
        1072, 1085, 1077, 32, 1086, 1087, 1072, 1089, 1085, 1086, 1089, 1090, 1080, 32, 1089,
        1091, 32, 1087, 1088, 1086, 1094, 1077, 1085, 1077, 1085, 1077, 32, 1087, 1088, 1077,
        1084, 1072, 32, 1084, 1077, 1090, 1086, 1076, 1086, 1083, 1086, 1075, 1080, 1112, 1080,
        32, 69, 215, 1055, 215, 1060, 32, 40, 1055, 1086, 1089, 1083, 1077, 1076, 1080, 1094,
        1077, 32, 215, 32, 1042, 1077, 1088, 1086, 1074, 1072, 1090, 1085, 1086, 1115, 1072, 32,
        215, 32, 1059, 1095, 1077, 1089, 1090, 1072, 1083, 1086, 1089, 1090, 41, 32, 1091, 32,
        1089, 1082, 1083, 1072, 1076, 1091, 32, 1089, 1072, 32, 1047, 1072, 1082, 1086, 1085,
        1086, 1084, 32, 1086, 32, 1073, 1077, 1079, 1073, 1077, 1076, 1085, 1086, 1089, 1090,
        1080, 32, 1080, 32, 1079, 1076, 1088, 1072, 1074, 1113, 1091, 32, 1085, 1072, 32, 1088,
        1072, 1076, 1091, 32, 40, 1057, 1083, 46, 32, 1075, 1083, 1072, 1089, 1085, 1080, 1082,
        32, 1056, 1057, 44, 32, 1073, 1088] @ asc ''. 101/2005...91/2015).'')),
     add_page_break]"

text \<open>6. Signatures, lines 292 to 324; \<^verbatim>\<open>"_" * 40\<close> is forty underscores.\<close>

definition gt_signatures :: stmt where
  "gt_signatures = seq [
     new_paragraph None (\<lambda>section5. add_header_text section5 (asc ''V. '' @ [1055, 1054,
        1058, 1055, 1048, 1057, 1053, 1048, 1062, 1048])),
     add_paragraph [] None,
     add_paragraph [] None,
     new_paragraph None (\<lambda>sig1. add_run sig1 ([1044, 1080, 1088, 1077, 1082, 1090, 1086,
        1088] @ asc '': {{company.director}}'')),
     add_paragraph [] None,
     new_paragraph None (\<lambda>sig1_line. seq [
       add_run sig1_line (replicate 40 95),
       add_run sig1_line ([32, 32, 1055, 1086, 1090, 1087, 1080, 1089])]),
     add_paragraph [] None,
     add_paragraph [] None,
     new_paragraph None (\<lambda>sig2. add_run sig2
       ([1051, 1080, 1094, 1077, 32, 1079, 1072, 1076, 1091, 1078, 1077, 1085, 1086, 32, 1079,
        1072, 32, 1041, 1047, 1056] @ asc '': {{company.bzrResponsiblePerson}}'')),
     add_paragraph [] None,
     new_paragraph None (\<lambda>sig2_line. seq [
       add_run sig2_line (replicate 40 95),
       add_run sig2_line ([32, 32, 1055, 1086, 1090, 1087, 1080, 1089])]),
     add_paragraph [] None,
     add_paragraph [] None,
     new_paragraph None (\<lambda>date_line. add_run date_line ([1044, 1072, 1090, 1091, 1084] @
        asc '': {{metadata.generatedDate}}'')),
     add_paragraph [] None,
     add_paragraph [] None,
     new_paragraph None (\<lambda>date_sig. add_run date_sig (replicate 40 95))]"

definition gt_build :: stmt where
  "gt_build = seq [
     gt_title_page,
     gt_company_information,
     gt_position_systematization,
     gt_risk_assessment,
     gt_summary,
     gt_signatures]"

definition gt_output_path :: path where
  "gt_output_path = (asc ''../templates/akt-procena-rizika-template.docx'')"

definition gt_prints :: "document \<Rightarrow> pystr list" where
  "gt_prints doc = [
     ([9989] @ asc '' Template generated successfully: '') @ gt_output_path,
     (asc ''   File contains '') @ str_nat (len_paragraphs doc) @ (asc '' paragraphs''),
     (asc ''   Ready for docx-templates library with Mustache syntax'')]"

definition generate_template :: "env \<Rightarrow> world \<Rightarrow> exc option \<times> world" where
  "generate_template env w =
     (case new_Document env of
        Some e \<Rightarrow> (Some e, w)
      | None \<Rightarrow>
          (case gt_build Document of
             Inl e \<Rightarrow> (Some e, w)
           | Inr doc \<Rightarrow>
               (case doc_save env gt_output_path doc w of
                  Inl e \<Rightarrow> (Some e, w)
                | Inr w' \<Rightarrow> (None, fold print (gt_prints doc) w'))))"

text \<open>
  The module: the imports, then \<^verbatim>\<open>generate_template()\<close> under \<^verbatim>\<open>__main__\<close>, with no
  \<^verbatim>\<open>try\<close> around it.
\<close>

definition generate_template_main :: "env \<Rightarrow> world \<Rightarrow> exc option \<times> world" where
  "generate_template_main env w =
     (case import_docx env of
        Some e \<Rightarrow> (Some e, w)
      | None \<Rightarrow> generate_template env w)"


section \<open>Reading a generated template\<close>

text \<open>
  The text of the body in document order: a paragraph gives the texts of its runs joined,
  a table the texts of its cells, row by row.
\<close>

fun run_text :: "run \<Rightarrow> pystr" where
  "run_text (Run t) = t"
| "run_text PageBreak = []"

fun block_texts :: "block \<Rightarrow> pystr list" where
  "block_texts (Paragraph style runs) = [concat (map run_text runs)]"
| "block_texts (Table style cols rows) = concat rows"

definition texts_of :: "block list \<Rightarrow> pystr list" where
  "texts_of bs = concat (map block_texts bs)"

definition doc_texts :: "document \<Rightarrow> pystr list" where
  "doc_texts d = texts_of (body d)"

text \<open>
  The placeholder syntax: \<^verbatim>\<open>{{name}}\<close> is a placeholder, \<^verbatim>\<open>{{#name}}\<close> opens a loop and
  \<^verbatim>\<open>{{/name}}\<close> closes one. The scanner reads a text from left to right; 123 and 125 are
  the two braces, 35 is \<^verbatim>\<open>#\<close> and 47 is \<^verbatim>\<open>/\<close>.
\<close>

datatype token = Var pystr | Open pystr | Close pystr

datatype scan_mode = Outside | Brace | Inside pystr | Closing pystr

fun mk_token :: "pystr \<Rightarrow> token" where
  "mk_token [] = Var []"
| "mk_token (c # name) =
     (if c = 35 then Open name else if c = 47 then Close name else Var (c # name))"

fun scan :: "scan_mode \<Rightarrow> pystr \<Rightarrow> token list" where
  "scan m [] = []"
| "scan Outside (c # cs) = (if c = 123 then scan Brace cs else scan Outside cs)"
| "scan Brace (c # cs) = (if c = 123 then scan (Inside []) cs else scan Outside cs)"
| "scan (Inside name) (c # cs) =
     (if c = 125 then scan (Closing name) cs else scan (Inside (name @ [c])) cs)"
| "scan (Closing name) (c # cs) =
     (if c = 125 then mk_token name # scan Outside cs
      else scan (Inside (name @ [125, c])) cs)"

definition tokens_in :: "pystr list \<Rightarrow> token list" where
  "tokens_in texts = concat (map (scan Outside) texts)"

definition tokens :: "document \<Rightarrow> token list" where
  "tokens d = tokens_in (doc_texts d)"

text \<open>The document a builder makes from \<^verbatim>\<open>Document()\<close>, if it raises nothing.\<close>

definition built :: "stmt \<Rightarrow> document option" where
  "built s = (case s Document of Inl e \<Rightarrow> None | Inr d \<Rightarrow> Some d)"

text \<open>
  The tokens of the template a builder makes, and whether it makes one at all. A builder
  that raised would leave no template; \<open>template_tokens\<close> is then empty.
\<close>

definition template_tokens :: "stmt \<Rightarrow> token list" where
  "template_tokens s = (case built s of None \<Rightarrow> [] | Some d \<Rightarrow> tokens d)"

definition template_texts :: "stmt \<Rightarrow> pystr list" where
  "template_texts s = (case built s of None \<Rightarrow> [] | Some d \<Rightarrow> doc_texts d)"

text \<open>
  Loop markers are balanced and properly nested when they match like brackets: a stack of
  the open loops, pushed by \<^verbatim>\<open>{{#x}}\<close>, popped by a \<^verbatim>\<open>{{/x}}\<close> of the same name, empty at the
  end.
\<close>

fun nested :: "pystr list \<Rightarrow> token list \<Rightarrow> bool" where
  "nested st [] = (st = [])"
| "nested st (Var n # ts) = nested st ts"
| "nested st (Open n # ts) = nested (n # st) ts"
| "nested [] (Close n # ts) = False"
| "nested (m # st) (Close n # ts) = (if m = n then nested st ts else False)"

fun opens :: "token list \<Rightarrow> nat" where
  "opens [] = 0"
| "opens (Var n # ts) = opens ts"
| "opens (Open n # ts) = Suc (opens ts)"
| "opens (Close n # ts) = opens ts"

fun closes :: "token list \<Rightarrow> nat" where
  "closes [] = 0"
| "closes (Var n # ts) = closes ts"
| "closes (Open n # ts) = closes ts"
| "closes (Close n # ts) = Suc (closes ts)"

text \<open>
  The loops over the sub-items of a position: the risks (\<^verbatim>\<open>risks\<close>, and \<^verbatim>\<open>summary_risks\<close>,
  the loop over risk records that \<^verbatim>\<open>create_template.py\<close> uses for its summary table), and
  the PPE, training and medical exam lists with the sections that guard them.
  \<open>within_positions\<close> holds when each of them is opened only while a \<^verbatim>\<open>positions\<close> loop is
  open; \<open>stray_loops\<close> lists those that are opened outside one.
\<close>

definition sub_loops :: "pystr list" where
  "sub_loops = [asc ''risks'', asc ''summary_risks'', asc ''has_ppe'', asc ''ppe_items'',
     asc ''has_training'', asc ''training_requirements'', asc ''has_medical'',
     asc ''medical_exams'']"

fun within_positions :: "pystr list \<Rightarrow> token list \<Rightarrow> bool" where
  "within_positions st [] = True"
| "within_positions st (Var n # ts) = within_positions st ts"
| "within_positions st (Open n # ts) =
     (if n \<in> set sub_loops \<and> asc ''positions'' \<notin> set st then False
      else within_positions (n # st) ts)"
| "within_positions st (Close n # ts) = within_positions (tl st) ts"

fun stray_loops :: "pystr list \<Rightarrow> token list \<Rightarrow> pystr list" where
  "stray_loops st [] = []"
| "stray_loops st (Var n # ts) = stray_loops st ts"
| "stray_loops st (Open n # ts) =
     (if n \<in> set sub_loops \<and> asc ''positions'' \<notin> set st then n # stray_loops (n # st) ts
      else stray_loops (n # st) ts)"
| "stray_loops st (Close n # ts) = stray_loops (tl st) ts"

text \<open>
  The body of a loop is what stands between its opening marker and the marker that closes
  it, the bodies of the loops inside it included. \<open>body_of\<close> reads a body up to the closing
  marker at depth 0; \<open>loop_bodies\<close> gives every loop of a template with its body, in the
  order of the opening markers, and \<open>bodies_of\<close> the bodies of the loops of one name.
  \<open>top_level\<close> keeps what stands at document scope, outside every loop; the opening marker
  of a loop that is opened there is part of it.
\<close>

fun body_of :: "nat \<Rightarrow> token list \<Rightarrow> token list" where
  "body_of d [] = []"
| "body_of d (Var n # ts) = Var n # body_of d ts"
| "body_of d (Open n # ts) = Open n # body_of (Suc d) ts"
| "body_of 0 (Close n # ts) = []"
| "body_of (Suc d) (Close n # ts) = Close n # body_of d ts"

fun loop_bodies :: "token list \<Rightarrow> (pystr \<times> token list) list" where
  "loop_bodies [] = []"
| "loop_bodies (Var n # ts) = loop_bodies ts"
| "loop_bodies (Open n # ts) = (n, body_of 0 ts) # loop_bodies ts"
| "loop_bodies (Close n # ts) = loop_bodies ts"

definition bodies_of :: "pystr \<Rightarrow> token list \<Rightarrow> token list list" where
  "bodies_of name ts = map snd (filter (\<lambda>b. fst b = name) (loop_bodies ts))"


text \<open>The names of the loops a template opens, in document order.\<close>

fun loop_names :: "token list \<Rightarrow> pystr list" where
  "loop_names [] = []"
| "loop_names (Var n # ts) = loop_names ts"
| "loop_names (Open n # ts) = n # loop_names ts"
| "loop_names (Close n # ts) = loop_names ts"


section \<open>Risk levels as the templates restate them\<close>

text \<open>
  A template restates a boundary where the Serbian word for a level (\<^verbatim>\<open>Nizak\<close>, \<^verbatim>\<open>Srednji\<close>,
  \<^verbatim>\<open>Visok\<close>, in Cyrillic and capitalised) is followed, on the same line, by a condition in
  parentheses. \<open>restatements\<close> collects every such pair of a text.
\<close>

datatype level = Low | Medium | High

fun level_word :: "level \<Rightarrow> pystr" where
  "level_word Low = [1053, 1080, 1079, 1072, 1082]"
| "level_word Medium = [1057, 1088, 1077, 1076, 1114, 1080]"
| "level_word High = [1042, 1080, 1089, 1086, 1082]"

fun starts_with :: "pystr \<Rightarrow> pystr \<Rightarrow> bool" where
  "starts_with [] s = True"
| "starts_with (w # ws) [] = False"
| "starts_with (w # ws) (c # cs) = (if w = c then starts_with ws cs else False)"

definition level_at :: "pystr \<Rightarrow> level option" where
  "level_at s =
     (if starts_with (level_word Low) s then Some Low
      else if starts_with (level_word Medium) s then Some Medium
      else if starts_with (level_word High) s then Some High
      else None)"

text \<open>The text between the next \<^verbatim>\<open>(\<close> (40) of the line and its \<^verbatim>\<open>)\<close> (41); 10 ends the line.\<close>

fun group_body :: "pystr \<Rightarrow> pystr \<Rightarrow> pystr option" where
  "group_body acc [] = None"
| "group_body acc (c # cs) = (if c = 41 then Some acc else group_body (acc @ [c]) cs)"

fun next_group :: "pystr \<Rightarrow> pystr option" where
  "next_group [] = None"
| "next_group (c # cs) =
     (if c = 40 then group_body [] cs else if c = 10 then None else next_group cs)"

fun restatements :: "pystr \<Rightarrow> (level \<times> pystr) list" where
  "restatements [] = []"
| "restatements (c # cs) =
     (case level_at (c # cs) of
        None \<Rightarrow> restatements cs
      | Some l \<Rightarrow>
          (case next_group cs of
             None \<Rightarrow> restatements cs
           | Some g \<Rightarrow> (l, g) # restatements cs))"

definition restated :: "pystr list \<Rightarrow> (level \<times> pystr) list" where
  "restated texts = concat (map restatements texts)"

text \<open>
  A condition denotes the scores of a level, a range of whole numbers: its least and its
  greatest score, either of which may be absent. The conditions are read without blanks
  and without the letter of the score (1056): \<^verbatim>\<open><=N\<close> (8804 is the sign), \<^verbatim>\<open>>N\<close>,
  \<^verbatim>\<open>N-M\<close> and \<^verbatim>\<open>N<<=M\<close>. Scores are products of whole numbers, so \<^verbatim>\<open>>N\<close> starts at
  \<open>N + 1\<close>.
\<close>

datatype bounds = Bounds "nat option" "nat option"

fun number :: "nat \<Rightarrow> pystr \<Rightarrow> nat \<times> pystr" where
  "number acc [] = (acc, [])"
| "number acc (c # cs) =
     (if 48 \<le> c \<and> c \<le> 57 then number (10 * acc + (c - 48)) cs else (acc, c # cs))"

fun read_number :: "pystr \<Rightarrow> (nat \<times> pystr) option" where
  "read_number [] = None"
| "read_number (c # cs) = (if 48 \<le> c \<and> c \<le> 57 then Some (number 0 (c # cs)) else None)"

fun upto_end :: "pystr \<Rightarrow> nat option" where
  "upto_end s = (case read_number s of Some (n, []) \<Rightarrow> Some n | _ \<Rightarrow> None)"

fun parse_stripped :: "pystr \<Rightarrow> bounds option" where
  "parse_stripped [] = None"
| "parse_stripped (c # cs) =
     (if c = 8804 then
        (case upto_end cs of None \<Rightarrow> None | Some n \<Rightarrow> Some (Bounds None (Some n)))
      else if c = 62 then
        (case upto_end cs of None \<Rightarrow> None | Some n \<Rightarrow> Some (Bounds (Some (n + 1)) None))
      else
        (case read_number (c # cs) of
           Some (n, d # e # rest) \<Rightarrow>
             (if d = 45 then
                (case upto_end (e # rest) of
                   None \<Rightarrow> None
                 | Some m \<Rightarrow> Some (Bounds (Some n) (Some m)))
              else if d = 60 \<and> e = 8804 then
                (case upto_end rest of
                   None \<Rightarrow> None
                 | Some m \<Rightarrow> Some (Bounds (Some (n + 1)) (Some m)))
              else None)
         | _ \<Rightarrow> None))"

definition parse_cond :: "pystr \<Rightarrow> bounds option" where
  "parse_cond s = parse_stripped (filter (\<lambda>c. c \<noteq> 32 \<and> c \<noteq> 1056) s)"

text \<open>
  Modelled from the spec: the classification thresholds, which no code of the repository
  computes (section 3: low up to 36, medium 37 to 70, high above 70).
\<close>

fun thresholds :: "level \<Rightarrow> bounds" where
  "thresholds Low = Bounds None (Some 36)"
| "thresholds Medium = Bounds (Some 37) (Some 70)"
| "thresholds High = Bounds (Some 71) None"

fun consistent :: "level \<times> pystr \<Rightarrow> bool" where
  "consistent (l, cond) = (parse_cond cond = Some (thresholds l))"

fun in_bounds :: "bounds \<Rightarrow> nat \<Rightarrow> bool" where
  "in_bounds (Bounds lo hi) r =
     ((case lo of None \<Rightarrow> True | Some a \<Rightarrow> a \<le> r) \<and> (case hi of None \<Rightarrow> True | Some b \<Rightarrow> r \<le> b))"


text \<open>
  Modelled from the spec: the two invariants of a risk (section 3), which no code of the
  repository computes: the score is the product of the three factors, and the level is
  the one whose range holds the score.
\<close>

definition risk_score :: "nat \<Rightarrow> nat \<Rightarrow> nat \<Rightarrow> nat" where
  "risk_score e p f = e * p * f"

definition risk_level :: "nat \<Rightarrow> level" where
  "risk_level r = (if r \<le> 36 then Low else if r \<le> 70 then Medium else High)"


section \<open>The documented fields\<close>








section \<open>What a builder appends\<close>

text \<open>
  Every statement of the generators appends blocks to the body, the same blocks whatever
  the body held before; a statement that is given a paragraph or a table changes that
  block, and may append after it. The two predicates say so, and let a sequence of
  statements be read off as the blocks it appends.
\<close>

definition appends :: "stmt \<Rightarrow> block list \<Rightarrow> bool" where
  "appends s bs = (\<forall>d. s d = Inr (d\<lparr>body := body d @ bs\<rparr>))"

definition updates :: "(nat \<Rightarrow> stmt) \<Rightarrow> block list \<Rightarrow> block list \<Rightarrow> bool" where
  "updates k bs bs' =
     (\<forall>d xs. body d = xs @ bs \<longrightarrow> k (length xs) d = Inr (d\<lparr>body := xs @ bs'\<rparr>))"

text \<open>
  \<open>makes s ts rs\<close>: the builder \<open>s\<close> appends blocks whose texts hold the tokens \<open>ts\<close> and
  restate the risk levels as \<open>rs\<close>.
\<close>

definition makes :: "stmt \<Rightarrow> token list \<Rightarrow> (level \<times> pystr) list \<Rightarrow> bool" where
  "makes s ts rs =
     (\<exists>bs. appends s bs \<and> tokens_in (texts_of bs) = ts \<and> restated (texts_of bs) = rs)"


section \<open>Failures of the library\<close>



section \<open>Sample runs\<close>

text \<open>
  Worlds and environments on which the theorems below are instantiated: a directory that
  holds the JSON file of the merge script, with a given value in it; an empty directory;
  an environment where python-docx works, and three where one of its calls fails.
\<close>

definition world_with :: "pyval \<Rightarrow> world" where
  "world_with v = \<lparr>files = [backup_json \<mapsto> JsonFile v], console = [], saved = []\<rparr>"

definition empty_world :: world where
  "empty_world = \<lparr>files = Map.empty, console = [], saved = []\<rparr>"

text \<open>
  Two position records as an extraction run may write them; the second carries a risk
  whose score is not the product of its factors (2 * 3 * 4 is not 99) and whose level is
  not the one its score falls in.
\<close>

definition sample_positions :: "pyval list" where
  "sample_positions = [
     PDict [(asc ''positionNumber'', PInt 2), (asc ''positionName'', PStr (asc ''Direktor'')),
            (asc ''risks'', PList [])],
     PDict [(asc ''positionNumber'', PInt 1), (asc ''positionName'', PStr (asc ''Vozac'')),
            (asc ''risks'', PList [PDict [(asc ''e'', PInt 2), (asc ''p'', PInt 3),
               (asc ''f'', PInt 4), (asc ''r'', PInt 99), (asc ''riskLevel'', PStr (asc ''low''))]])]]"

definition sample_data :: "pyval list \<Rightarrow> pyval" where
  "sample_data ps = PDict [(asc ''positions'', PList ps)]"

definition env_ok :: env where
  "env_ok = \<lparr>import_docx = None, new_Document = None, save_file = (\<lambda>p. None)\<rparr>"





section \<open>The builder calls, as what they append\<close>

lemma appends_seq_Nil: "appends (seq []) []"
  by (simp add: appends_def)

lemma appends_seq_Cons:
  "appends s bs \<Longrightarrow> appends (seq ss) cs \<Longrightarrow> appends (seq (s # ss)) (bs @ cs)"
  by (simp add: appends_def)

lemma appends_add_paragraph:
  "appends (add_paragraph text style) [Paragraph style (if text = [] then [] else [Run text])]"
  by (simp add: appends_def add_paragraph_def)

lemma appends_add_page_break: "appends add_page_break [Paragraph None [PageBreak]]"
  by (simp add: appends_def add_page_break_def)

lemma appends_add_heading:
  "level \<le> 9 \<Longrightarrow>
   appends (add_heading text level)
     [Paragraph (Some (if level = 0 then asc ''Title'' else asc ''Heading '' @ str_nat level))
        (if text = [] then [] else [Run text])]"
  by (simp add: appends_def add_heading_def add_paragraph_def)

lemma appends_new_paragraph:
  "updates k [Paragraph style []] bs \<Longrightarrow> appends (new_paragraph style k) bs"
  by (simp add: appends_def updates_def new_paragraph_def add_paragraph_def)

lemma appends_add_table:
  "updates k [Table None cols (replicate rows (replicate cols []))] bs \<Longrightarrow>
   appends (add_table rows cols k) bs"
  by (simp add: appends_def updates_def add_table_def)

lemma updates_seq_Nil: "updates (\<lambda>p. seq []) bs bs"
  by (simp add: updates_def)

lemma updates_seq_Cons:
  "updates k bs bs1 \<Longrightarrow> updates (\<lambda>p. seq (ks p)) bs1 bs2 \<Longrightarrow>
   updates (\<lambda>p. seq (k p # ks p)) bs bs2"
  by (simp add: updates_def)

lemma updates_add_run:
  "updates (\<lambda>p. add_run p text) (Paragraph style runs # rest)
     (Paragraph style (runs @ [Run text]) # rest)"
  by (simp add: updates_def add_run_def)

lemma updates_add_header_text:
  "updates (\<lambda>p. add_header_text p text) (Paragraph style runs # rest)
     (Paragraph style (runs @ [Run text]) # rest)"
  by (simp add: add_header_text_def updates_add_run)

lemma updates_set_table_style:
  "updates (\<lambda>t. set_table_style t name) (Table style cols rows # rest)
     (Table (Some name) cols rows # rest)"
  by (simp add: updates_def set_table_style_def)

text \<open>
  The two loops that fill a table, in closed form: \<open>fill_row\<close> overwrites a stretch of
  one row, \<open>fill_rows\<close> the first two cells of consecutive rows.
\<close>

lemma set_cell_text_eq:
  assumes "body d = xs @ Table style cols rows # rest" "i < length rows" "j < length (rows ! i)"
  shows "set_cell_text (length xs) i j text d =
         Inr (d\<lparr>body := xs @ Table style cols (rows[i := (rows ! i)[j := text]]) # rest\<rparr>)"
  using assms by (simp add: set_cell_text_def)

lemma fill_row_eq:
  assumes "body d = xs @ Table style cols rows # rest" "r < length rows"
    "i + length texts \<le> length (rows ! r)"
  shows "fill_row (length xs) r i texts d =
         Inr (d\<lparr>body := xs @ Table style cols
                (rows[r := take i (rows ! r) @ texts @ drop (i + length texts) (rows ! r)]) # rest\<rparr>)"
  using assms
proof (induction texts arbitrary: i rows d)
  case Nil
  then show ?case by simp
next
  case (Cons t texts)
  let ?rows = "rows[r := (rows ! r)[i := t]]"
  let ?d = "d\<lparr>body := xs @ Table style cols ?rows # rest\<rparr>"
  have i: "i < length (rows ! r)" using Cons.prems by simp
  have step: "set_cell_text (length xs) r i t d = Inr ?d"
    using Cons.prems i by (simp add: set_cell_text_eq)
  have b: "body ?d = xs @ Table style cols ?rows # rest" by simp
  have r: "r < length ?rows" using Cons.prems by simp
  have l: "Suc i + length texts \<le> length (?rows ! r)" using Cons.prems by simp
  have "fill_row (length xs) r (Suc i) texts ?d =
        Inr (?d\<lparr>body := xs @ Table style cols
               (?rows[r := take (Suc i) (?rows ! r) @ texts @
                  drop (Suc i + length texts) (?rows ! r)]) # rest\<rparr>)"
    by (rule Cons.IH [OF b r l])
  moreover have "take (Suc i) (?rows ! r) = take i (rows ! r) @ [t]"
    using Cons.prems i by (simp add: take_Suc_conv_app_nth)
  moreover have "drop (Suc i + length texts) (?rows ! r) = drop (Suc i + length texts) (rows ! r)"
    using Cons.prems by simp
  ultimately show ?case using step by simp
qed

lemma fill_rows_eq:
  assumes "body d = xs @ Table style cols (filled @ replicate m (replicate 2 [])) # rest"
    "length data \<le> m"
  shows "fill_rows (length xs) (length filled) data d =
         Inr (d\<lparr>body := xs @ Table style cols
                (filled @ map (\<lambda>(label, val). [label, val]) data @
                 replicate (m - length data) (replicate 2 [])) # rest\<rparr>)"
  using assms
proof (induction data arbitrary: filled m d)
  case Nil
  then show ?case by simp
next
  case (Cons lv data)
  obtain label val where lv: "lv = (label, val)" by (cases lv)
  obtain m' where m: "m = Suc m'" using Cons.prems by (cases m) auto
  let ?rows = "filled @ replicate m (replicate 2 [])"
  let ?rows1 = "filled @ [[label, []]] @ replicate m' (replicate 2 [])"
  let ?rows2 = "(filled @ [[label, val]]) @ replicate m' (replicate 2 [])"
  let ?d1 = "d\<lparr>body := xs @ Table style cols ?rows1 # rest\<rparr>"
  let ?d2 = "d\<lparr>body := xs @ Table style cols ?rows2 # rest\<rparr>"
  have two: "replicate 2 [] = [[], []::pystr]" by (simp add: numeral_2_eq_2)
  have s1: "set_cell_text (length xs) (length filled) 0 label d = Inr ?d1"
    using Cons.prems(1) m by (simp add: set_cell_text_def nth_append two)
  have s2: "set_cell_text (length xs) (length filled) 1 val ?d1 = Inr ?d2"
    by (simp add: set_cell_text_def nth_append)
  have b: "body ?d2 = xs @ Table style cols ?rows2 # rest" by simp
  have l: "length data \<le> m'" using Cons.prems(2) m by simp
  have "fill_rows (length xs) (length (filled @ [[label, val]])) data ?d2 =
        Inr (?d2\<lparr>body := xs @ Table style cols
               ((filled @ [[label, val]]) @ map (\<lambda>(label, val). [label, val]) data @
                replicate (m' - length data) (replicate 2 [])) # rest\<rparr>)"
    by (rule Cons.IH [OF b l])
  then show ?case using s1 s2 lv m by simp
qed

lemma updates_fill_row:
  "r < length rows \<Longrightarrow> length texts \<le> length (rows ! r) \<Longrightarrow>
   updates (\<lambda>t. fill_row t r 0 texts) (Table style cols rows # rest)
     (Table style cols (rows[r := texts @ drop (length texts) (rows ! r)]) # rest)"
  unfolding updates_def using fill_row_eq [where i = 0] by simp

lemma updates_fill_rows:
  "length data \<le> n \<Longrightarrow>
   updates (\<lambda>t. fill_rows t 0 data) (Table style cols (replicate n (replicate 2 [])) # rest)
     (Table style cols (map (\<lambda>(label, val). [label, val]) data @
        replicate (n - length data) (replicate 2 [])) # rest)"
  unfolding updates_def using fill_rows_eq [where filled = "[]"] by simp

text \<open>
  A statement inside the scope of a table that does not touch the table appends after
  it; the two lemmas after this one bring the blocks back to the form the others expect.
\<close>

lemma updates_appends: "appends s cs \<Longrightarrow> updates (\<lambda>p. s) bs (bs @ cs)"
  by (simp add: updates_def appends_def)

lemma updates_Cons_append: "updates k (b # (bs @ cs)) bs' \<Longrightarrow> updates k ((b # bs) @ cs) bs'"
  by simp

lemma updates_Nil_append: "updates k cs bs' \<Longrightarrow> updates k ([] @ cs) bs'"
  by simp

lemma appends_add_paragraph_with_label:
  "appends (add_paragraph_with_label label placeholder True)
     [Paragraph None [Run (label @ asc '': ''), Run placeholder]]"
proof -
  have "updates (\<lambda>p. seq [add_run p (label @ asc '': ''), add_run p placeholder])
          [Paragraph None []] [Paragraph None (([] @ [Run (label @ asc '': '')]) @ [Run placeholder])]"
    by (rule updates_seq_Cons, rule updates_add_run, rule updates_seq_Cons,
        rule updates_add_run, rule updates_seq_Nil)
  then show ?thesis
    unfolding add_paragraph_with_label_def
    using appends_new_paragraph [of _ None] by simp
qed

lemmas build_rules =
  appends_seq_Nil appends_seq_Cons appends_add_paragraph appends_add_page_break
  appends_add_heading appends_new_paragraph appends_add_table appends_add_paragraph_with_label
  updates_seq_Nil updates_seq_Cons updates_add_run updates_add_header_text
  updates_set_table_style updates_fill_row updates_fill_rows
  updates_Cons_append updates_Nil_append
  updates_appends

lemma texts_of_append: "texts_of (bs @ cs) = texts_of bs @ texts_of cs"
  by (simp add: texts_of_def)

lemma tokens_in_append: "tokens_in (xs @ ys) = tokens_in xs @ tokens_in ys"
  by (simp add: tokens_in_def)

lemma restated_append: "restated (xs @ ys) = restated xs @ restated ys"
  by (simp add: restated_def)

lemma makes_seq_Nil: "makes (seq []) [] []"
  unfolding makes_def
  by (rule exI [of _ "[]"]) (simp add: appends_seq_Nil tokens_in_def texts_of_def restated_def)

lemma makes_seq_Cons:
  assumes "makes s ts rs" "makes (seq ss) ts' rs'"
  shows "makes (seq (s # ss)) (ts @ ts') (rs @ rs')"
proof -
  from assms(1) obtain bs where
    bs: "appends s bs" "tokens_in (texts_of bs) = ts" "restated (texts_of bs) = rs"
    unfolding makes_def by blast
  from assms(2) obtain cs where
    cs: "appends (seq ss) cs" "tokens_in (texts_of cs) = ts'" "restated (texts_of cs) = rs'"
    unfolding makes_def by blast
  have "appends (seq (s # ss)) (bs @ cs)"
    using bs(1) cs(1) by (rule appends_seq_Cons)
  moreover have "tokens_in (texts_of (bs @ cs)) = ts @ ts'"
    using bs(2) cs(2) by (simp add: texts_of_append tokens_in_append)
  moreover have "restated (texts_of (bs @ cs)) = rs @ rs'"
    using bs(3) cs(3) by (simp add: texts_of_append restated_append)
  ultimately show ?thesis unfolding makes_def by blast
qed

lemma makes_eq: "makes s ts rs \<Longrightarrow> ts = ts' \<Longrightarrow> rs = rs' \<Longrightarrow> makes s ts' rs'"
  by simp

lemma appends_built: "appends s bs \<Longrightarrow> built s = Some \<lparr>body = bs, sections = 1\<rparr>"
  by (simp add: appends_def built_def Document_def)

lemma replicate_numeral_Cons: "replicate (numeral k) x = x # replicate (pred_numeral k) x"
  by (simp add: numeral_eq_Suc)


lemma makes_built: "makes s ts rs \<Longrightarrow> \<exists>d. s Document = Inr d \<and> built s = Some d"
  unfolding makes_def appends_def built_def by auto

lemma makes_template_tokens: "makes s ts rs \<Longrightarrow> template_tokens s = ts"
  unfolding makes_def
  by (auto simp: template_tokens_def tokens_def doc_texts_def dest!: appends_built)

lemma makes_template_restated: "makes s ts rs \<Longrightarrow> restated (template_texts s) = rs"
  unfolding makes_def
  by (auto simp: template_texts_def doc_texts_def dest!: appends_built)


section \<open>The three templates, section by section\<close>

lemma ct_cover_page_makes:
  "makes ct_cover_page
     [Var (asc ''company.name''), Var (asc ''company.address''), Var (asc ''company.city''),
      Var (asc ''company.pib''), Var (asc ''metadata.generatedDate''),
      Var (asc ''metadata.validUntil'')]
     []"
  unfolding makes_def ct_cover_page_def
  apply (intro exI conjI)
    apply ((rule build_rules | simp)+)[1]
   apply (simp add: tokens_in_def texts_of_def asc_def replicate_numeral_Cons)
  apply (simp add: restated_def texts_of_def asc_def level_at_def replicate_numeral_Cons)
  done

lemma ct_introduction_makes:
  "makes ct_introduction
     [Var (asc ''company.name'')]
     [(Low, [1056, 32, 8804, 32, 51, 54]),
      (Medium, [51, 54, 32, 60, 32, 1056, 32, 8804, 32, 55, 48]),
      (High, [1056, 32, 62, 32, 55, 48])]"
  unfolding makes_def ct_introduction_def
  apply (intro exI conjI)
    apply ((rule build_rules | simp)+)[1]
   apply (simp add: tokens_in_def texts_of_def asc_def replicate_numeral_Cons)
  apply (simp add: restated_def texts_of_def asc_def level_at_def replicate_numeral_Cons)
  done

lemma ct_company_data_makes:
  "makes ct_company_data
     [Var (asc ''company.name''), Var (asc ''company.pib''), Var (asc ''company.maticniBroj''),
      Var (asc ''company.address''), Var (asc ''company.city''),
      Var (asc ''company.activityCode''), Var (asc ''company.activityDescription''),
      Var (asc ''company.director''), Var (asc ''company.bzrResponsiblePerson''),
      Var (asc ''company.employeeCount'')]
     []"
  unfolding makes_def ct_company_data_def
  apply (intro exI conjI)
    apply ((rule build_rules | simp)+)[1]
   apply (simp add: tokens_in_def texts_of_def asc_def replicate_numeral_Cons)
  apply (simp add: restated_def texts_of_def asc_def level_at_def replicate_numeral_Cons)
  done

lemma ct_organizational_structure_makes:
  "makes ct_organizational_structure
     [Var (asc ''company.name''), Var (asc ''summary.totalPositions''),
      Var (asc ''summary.totalPositions'')]
     []"
  unfolding makes_def ct_organizational_structure_def
  apply (intro exI conjI)
    apply ((rule build_rules | simp)+)[1]
   apply (simp add: tokens_in_def texts_of_def asc_def replicate_numeral_Cons)
  apply (simp add: restated_def texts_of_def asc_def level_at_def replicate_numeral_Cons)
  done

lemma ct_position_systematization_makes:
  "makes ct_position_systematization
     [Open (asc ''positions''), Var (asc ''@index''), Var (asc ''positionName''),
      Var (asc ''department''), Var (asc ''totalCount''), Var (asc ''maleCount''),
      Var (asc ''femaleCount''), Var (asc ''requiredEducation''),
      Var (asc ''requiredExperience''), Var (asc ''workDescription''),
      Close (asc ''positions'')]
     []"
  unfolding makes_def ct_position_systematization_def
  apply (intro exI conjI)
    apply ((rule build_rules | simp)+)[1]
   apply (simp add: tokens_in_def texts_of_def asc_def replicate_numeral_Cons)
  apply (simp add: restated_def texts_of_def asc_def level_at_def replicate_numeral_Cons)
  done

lemma ct_risk_assessment_makes:
  "makes ct_risk_assessment
     [Open (asc ''positions''), Var (asc ''@index''), Var (asc ''positionName''),
      Var (asc ''hazardName''), Var (asc ''ei''), Var (asc ''pi''), Var (asc ''fi''),
      Var (asc ''ri''), Var (asc ''correctiveMeasures''), Var (asc ''e''), Var (asc ''p''),
      Var (asc ''f''), Var (asc ''r''), Var (asc ''riskLevel''), Open (asc ''risks''),
      Close (asc ''risks''), Close (asc ''positions'')]
     [(Low, [1056, 32, 8804, 32, 51, 54]),
      (Medium, [51, 54, 32, 60, 32, 1056, 32, 8804, 32, 55, 48]),
      (High, [1056, 32, 62, 32, 55, 48])]"
  unfolding makes_def ct_risk_assessment_def ct_headers_def ct_placeholders_def
  apply (intro exI conjI)
    apply ((rule build_rules | simp)+)[1]
   apply (simp add: tokens_in_def texts_of_def asc_def replicate_numeral_Cons)
  apply (simp add: restated_def texts_of_def asc_def level_at_def replicate_numeral_Cons)
  done

lemma ct_summary_makes:
  "makes ct_summary
     [Var (asc ''summary.totalPositions''), Var (asc ''summary.totalRisks''),
      Var (asc ''summary.lowRiskCount''), Var (asc ''summary.mediumRiskCount''),
      Var (asc ''summary.highRiskCount''), Open (asc ''summary.highRiskPositions''),
      Var (asc ''summary.highRiskPositions''), Close (asc ''summary.highRiskPositions'')]
     [(Low, [1056, 32, 8804, 32, 51, 54]),
      (Medium, [51, 54, 32, 60, 32, 1056, 32, 8804, 32, 55, 48]),
      (High, [1056, 32, 62, 32, 55, 48])]"
  unfolding makes_def ct_summary_def
  apply (intro exI conjI)
    apply ((rule build_rules | simp)+)[1]
   apply (simp add: tokens_in_def texts_of_def asc_def replicate_numeral_Cons)
  apply (simp add: restated_def texts_of_def asc_def level_at_def replicate_numeral_Cons)
  done

lemma ct_appendices_makes:
  "makes ct_appendices
     []
     []"
  unfolding makes_def ct_appendices_def
  apply (intro exI conjI)
    apply ((rule build_rules | simp)+)[1]
   apply (simp add: tokens_in_def texts_of_def asc_def replicate_numeral_Cons)
  apply (simp add: restated_def texts_of_def asc_def level_at_def replicate_numeral_Cons)
  done

lemma ct_verification_makes:
  "makes ct_verification
     [Var (asc ''metadata.generatedDate''), Var (asc ''metadata.validityPeriod''),
      Var (asc ''company.director''), Var (asc ''company.bzrResponsiblePerson'')]
     []"
  unfolding makes_def ct_verification_def
  apply (intro exI conjI)
    apply ((rule build_rules | simp)+)[1]
   apply (simp add: tokens_in_def texts_of_def asc_def replicate_numeral_Cons)
  apply (simp add: restated_def texts_of_def asc_def level_at_def replicate_numeral_Cons)
  done

text \<open>The whole template of \<^verbatim>\<open>generate-docx-template.py\<close>: its tokens in document order, and its restatements.\<close>

lemma ct_build_makes:
  "makes ct_build
     [Var (asc ''company.name''), Var (asc ''company.address''), Var (asc ''company.city''),
      Var (asc ''company.pib''), Var (asc ''metadata.generatedDate''),
      Var (asc ''metadata.validUntil''), Var (asc ''company.name''),
      Var (asc ''company.name''), Var (asc ''company.pib''),
      Var (asc ''company.maticniBroj''), Var (asc ''company.address''),
      Var (asc ''company.city''), Var (asc ''company.activityCode''),
      Var (asc ''company.activityDescription''), Var (asc ''company.director''),
      Var (asc ''company.bzrResponsiblePerson''), Var (asc ''company.employeeCount''),
      Var (asc ''company.name''), Var (asc ''summary.totalPositions''),
      Var (asc ''summary.totalPositions''), Open (asc ''positions''), Var (asc ''@index''),
      Var (asc ''positionName''), Var (asc ''department''), Var (asc ''totalCount''),
      Var (asc ''maleCount''), Var (asc ''femaleCount''), Var (asc ''requiredEducation''),
      Var (asc ''requiredExperience''), Var (asc ''workDescription''),
      Close (asc ''positions''), Open (asc ''positions''), Var (asc ''@index''),
      Var (asc ''positionName''), Var (asc ''hazardName''), Var (asc ''ei''),
      Var (asc ''pi''), Var (asc ''fi''), Var (asc ''ri''),
      Var (asc ''correctiveMeasures''), Var (asc ''e''), Var (asc ''p''), Var (asc ''f''),
      Var (asc ''r''), Var (asc ''riskLevel''), Open (asc ''risks''), Close (asc ''risks''),
      Close (asc ''positions''), Var (asc ''summary.totalPositions''),
      Var (asc ''summary.totalRisks''), Var (asc ''summary.lowRiskCount''),
      Var (asc ''summary.mediumRiskCount''), Var (asc ''summary.highRiskCount''),
      Open (asc ''summary.highRiskPositions''), Var (asc ''summary.highRiskPositions''),
      Close (asc ''summary.highRiskPositions''), Var (asc ''metadata.generatedDate''),
      Var (asc ''metadata.validityPeriod''), Var (asc ''company.director''),
      Var (asc ''company.bzrResponsiblePerson'')]
     [(Low, [1056, 32, 8804, 32, 51, 54]),
      (Medium, [51, 54, 32, 60, 32, 1056, 32, 8804, 32, 55, 48]),
      (High, [1056, 32, 62, 32, 55, 48]), (Low, [1056, 32, 8804, 32, 51, 54]),
      (Medium, [51, 54, 32, 60, 32, 1056, 32, 8804, 32, 55, 48]),
      (High, [1056, 32, 62, 32, 55, 48]), (Low, [1056, 32, 8804, 32, 51, 54]),
      (Medium, [51, 54, 32, 60, 32, 1056, 32, 8804, 32, 55, 48]),
      (High, [1056, 32, 62, 32, 55, 48])]"
  unfolding ct_build_def
  apply (rule makes_eq)
    apply ((rule makes_seq_Cons makes_seq_Nil
      ct_cover_page_makes
      ct_introduction_makes
      ct_company_data_makes
      ct_organizational_structure_makes
      ct_position_systematization_makes
      ct_risk_assessment_makes
      ct_summary_makes
      ct_appendices_makes
      ct_verification_makes)+)[1]
   apply simp
  apply simp
  done


lemma cr_cover_page_makes:
  "makes cr_cover_page
     [Var (asc ''company.name''), Var (asc ''company.address'')]
     []"
  unfolding makes_def cr_cover_page_def
  apply (intro exI conjI)
    apply ((rule build_rules | simp)+)[1]
   apply (simp add: tokens_in_def texts_of_def asc_def replicate_numeral_Cons)
  apply (simp add: restated_def texts_of_def asc_def level_at_def replicate_numeral_Cons)
  done

lemma cr_intro_makes:
  "makes cr_intro
     []
     []"
  unfolding makes_def cr_intro_def
  apply (intro exI conjI)
    apply ((rule build_rules | simp)+)[1]
   apply (simp add: tokens_in_def texts_of_def asc_def replicate_numeral_Cons)
  apply (simp add: restated_def texts_of_def asc_def level_at_def replicate_numeral_Cons)
  done

lemma cr_employer_makes:
  "makes cr_employer
     [Var (asc ''company.name''), Var (asc ''company.address''), Var (asc ''company.pib''),
      Var (asc ''company.registration_number''), Var (asc ''company.activity_code''),
      Var (asc ''company.director''), Var (asc ''company.bzr_responsible_person'')]
     []"
  unfolding makes_def cr_employer_def cells_data_def
  apply (intro exI conjI)
    apply ((rule build_rules | simp)+)[1]
   apply (simp add: tokens_in_def texts_of_def asc_def replicate_numeral_Cons)
  apply (simp add: restated_def texts_of_def asc_def level_at_def replicate_numeral_Cons)
  done

lemma cr_systematization_makes:
  "makes cr_systematization
     [Open (asc ''positions''), Var (asc ''position_name''), Var (asc ''position_code''),
      Var (asc ''department''), Var (asc ''required_education''),
      Var (asc ''employees_male''), Var (asc ''employees_female''),
      Var (asc ''work_hours_daily''), Var (asc ''job_description''),
      Var (asc ''workspace''), Close (asc ''positions'')]
     []"
  unfolding makes_def cr_systematization_def position_data_def
  apply (intro exI conjI)
    apply ((rule build_rules | simp)+)[1]
   apply (simp add: tokens_in_def texts_of_def asc_def replicate_numeral_Cons)
  apply (simp add: restated_def texts_of_def asc_def level_at_def replicate_numeral_Cons)
  done

lemma cr_risk_assessment_makes:
  "makes cr_risk_assessment
     [Open (asc ''positions''), Var (asc ''position_name''), Open (asc ''risks''),
      Var (asc ''hazard.hazard_code''), Var (asc ''hazard.hazard_name_sr''),
      Var (asc ''initial_e''), Var (asc ''initial_p''), Var (asc ''initial_f''),
      Var (asc ''initial_ri''), Var (asc ''corrective_measures''), Var (asc ''residual_e''),
      Var (asc ''residual_p''), Var (asc ''residual_f''), Var (asc ''residual_r''),
      Var (asc ''responsible_person''), Close (asc ''risks''), Close (asc ''positions'')]
     []"
  unfolding makes_def cr_risk_assessment_def risk_data_def
  apply (intro exI conjI)
    apply ((rule build_rules | simp)+)[1]
   apply (simp add: tokens_in_def texts_of_def asc_def replicate_numeral_Cons)
  apply (simp add: restated_def texts_of_def asc_def level_at_def replicate_numeral_Cons)
  done

lemma cr_summary_makes:
  "makes cr_summary
     [Open (asc ''summary_risks''), Var (asc ''position_name''), Var (asc ''hazard_name''),
      Var (asc ''initial_ri''), Var (asc ''residual_r''), Var (asc ''risk_level''),
      Close (asc ''summary_risks'')]
     []"
  unfolding makes_def cr_summary_def cr_headers_def
  apply (intro exI conjI)
    apply ((rule build_rules | simp)+)[1]
   apply (simp add: tokens_in_def texts_of_def asc_def replicate_numeral_Cons)
  apply (simp add: restated_def texts_of_def asc_def level_at_def replicate_numeral_Cons)
  done

lemma cr_ppe_makes:
  "makes cr_ppe
     [Open (asc ''positions''), Open (asc ''has_ppe''), Var (asc ''position_name''),
      Open (asc ''ppe_items''), Var (asc ''ppe_type''), Var (asc ''ppe_standard''),
      Var (asc ''quantity''), Close (asc ''ppe_items''), Close (asc ''has_ppe''),
      Close (asc ''positions'')]
     []"
  unfolding makes_def cr_ppe_def
  apply (intro exI conjI)
    apply ((rule build_rules | simp)+)[1]
   apply (simp add: tokens_in_def texts_of_def asc_def replicate_numeral_Cons)
  apply (simp add: restated_def texts_of_def asc_def level_at_def replicate_numeral_Cons)
  done

lemma cr_training_makes:
  "makes cr_training
     [Open (asc ''positions''), Open (asc ''has_training''), Var (asc ''position_name''),
      Open (asc ''training_requirements''), Var (asc ''training_type''),
      Var (asc ''frequency_months''), Var (asc ''duration_hours''),
      Close (asc ''training_requirements''), Close (asc ''has_training''),
      Close (asc ''positions'')]
     []"
  unfolding makes_def cr_training_def
  apply (intro exI conjI)
    apply ((rule build_rules | simp)+)[1]
   apply (simp add: tokens_in_def texts_of_def asc_def replicate_numeral_Cons)
  apply (simp add: restated_def texts_of_def asc_def level_at_def replicate_numeral_Cons)
  done

lemma cr_medical_makes:
  "makes cr_medical
     [Open (asc ''positions''), Open (asc ''has_medical''), Var (asc ''position_name''),
      Open (asc ''medical_exams''), Var (asc ''exam_type''), Var (asc ''frequency_months''),
      Var (asc ''exam_scope''), Close (asc ''medical_exams''), Close (asc ''has_medical''),
      Close (asc ''positions'')]
     []"
  unfolding makes_def cr_medical_def
  apply (intro exI conjI)
    apply ((rule build_rules | simp)+)[1]
   apply (simp add: tokens_in_def texts_of_def asc_def replicate_numeral_Cons)
  apply (simp add: restated_def texts_of_def asc_def level_at_def replicate_numeral_Cons)
  done

lemma cr_conclusion_makes:
  "makes cr_conclusion
     [Var (asc ''company.name'')]
     []"
  unfolding makes_def cr_conclusion_def
  apply (intro exI conjI)
    apply ((rule build_rules | simp)+)[1]
   apply (simp add: tokens_in_def texts_of_def asc_def replicate_numeral_Cons)
  apply (simp add: restated_def texts_of_def asc_def level_at_def replicate_numeral_Cons)
  done

lemma cr_signatures_makes:
  "makes cr_signatures
     [Var (asc ''company.bzr_responsible_person''), Var (asc ''generated_date''),
      Var (asc ''company.director'')]
     []"
  unfolding makes_def cr_signatures_def sig_data_def
  apply (intro exI conjI)
    apply ((rule build_rules | simp)+)[1]
   apply (simp add: tokens_in_def texts_of_def asc_def replicate_numeral_Cons)
  apply (simp add: restated_def texts_of_def asc_def level_at_def replicate_numeral_Cons)
  done

text \<open>The whole template of \<^verbatim>\<open>create_template.py\<close>: its tokens in document order, and its restatements.\<close>

lemma cr_build_makes:
  "makes cr_build
     [Var (asc ''company.name''), Var (asc ''company.address''), Var (asc ''company.name''),
      Var (asc ''company.address''), Var (asc ''company.pib''),
      Var (asc ''company.registration_number''), Var (asc ''company.activity_code''),
      Var (asc ''company.director''), Var (asc ''company.bzr_responsible_person''),
      Open (asc ''positions''), Var (asc ''position_name''), Var (asc ''position_code''),
      Var (asc ''department''), Var (asc ''required_education''),
      Var (asc ''employees_male''), Var (asc ''employees_female''),
      Var (asc ''work_hours_daily''), Var (asc ''job_description''),
      Var (asc ''workspace''), Close (asc ''positions''), Open (asc ''positions''),
      Var (asc ''position_name''), Open (asc ''risks''), Var (asc ''hazard.hazard_code''),
      Var (asc ''hazard.hazard_name_sr''), Var (asc ''initial_e''), Var (asc ''initial_p''),
      Var (asc ''initial_f''), Var (asc ''initial_ri''), Var (asc ''corrective_measures''),
      Var (asc ''residual_e''), Var (asc ''residual_p''), Var (asc ''residual_f''),
      Var (asc ''residual_r''), Var (asc ''responsible_person''), Close (asc ''risks''),
      Close (asc ''positions''), Open (asc ''summary_risks''), Var (asc ''position_name''),
      Var (asc ''hazard_name''), Var (asc ''initial_ri''), Var (asc ''residual_r''),
      Var (asc ''risk_level''), Close (asc ''summary_risks''), Open (asc ''positions''),
      Open (asc ''has_ppe''), Var (asc ''position_name''), Open (asc ''ppe_items''),
      Var (asc ''ppe_type''), Var (asc ''ppe_standard''), Var (asc ''quantity''),
      Close (asc ''ppe_items''), Close (asc ''has_ppe''), Close (asc ''positions''),
      Open (asc ''positions''), Open (asc ''has_training''), Var (asc ''position_name''),
      Open (asc ''training_requirements''), Var (asc ''training_type''),
      Var (asc ''frequency_months''), Var (asc ''duration_hours''),
      Close (asc ''training_requirements''), Close (asc ''has_training''),
      Close (asc ''positions''), Open (asc ''positions''), Open (asc ''has_medical''),
      Var (asc ''position_name''), Open (asc ''medical_exams''), Var (asc ''exam_type''),
      Var (asc ''frequency_months''), Var (asc ''exam_scope''),
      Close (asc ''medical_exams''), Close (asc ''has_medical''), Close (asc ''positions''),
      Var (asc ''company.name''), Var (asc ''company.bzr_responsible_person''),
      Var (asc ''generated_date''), Var (asc ''company.director'')]
     []"
  unfolding cr_build_def
  apply (rule makes_eq)
    apply ((rule makes_seq_Cons makes_seq_Nil
      cr_cover_page_makes
      cr_intro_makes
      cr_employer_makes
      cr_systematization_makes
      cr_risk_assessment_makes
      cr_summary_makes
      cr_ppe_makes
      cr_training_makes
      cr_medical_makes
      cr_conclusion_makes
      cr_signatures_makes)+)[1]
   apply simp
  apply simp
  done


lemma gt_title_page_makes:
  "makes gt_title_page
     [Var (asc ''company.name''), Var (asc ''company.pib''), Var (asc ''company.address''),
      Var (asc ''metadata.generatedDate''), Var (asc ''metadata.validityPeriod'')]
     []"
  unfolding makes_def gt_title_page_def
  apply (intro exI conjI)
    apply ((rule build_rules | simp)+)[1]
   apply (simp add: tokens_in_def texts_of_def asc_def replicate_numeral_Cons)
  apply (simp add: restated_def texts_of_def asc_def level_at_def replicate_numeral_Cons)
  done

lemma gt_company_information_makes:
  "makes gt_company_information
     [Var (asc ''company.name''), Var (asc ''company.pib''), Var (asc ''company.address''),
      Var (asc ''company.city''), Var (asc ''company.activityCode''),
      Var (asc ''company.activityDescription''), Var (asc ''company.employeeCount''),
      Var (asc ''company.director''), Var (asc ''company.bzrResponsiblePerson'')]
     []"
  unfolding makes_def gt_company_information_def
  apply (intro exI conjI)
    apply ((rule build_rules | simp)+)[1]
   apply (simp add: tokens_in_def texts_of_def asc_def replicate_numeral_Cons)
  apply (simp add: restated_def texts_of_def asc_def level_at_def replicate_numeral_Cons)
  done

lemma gt_position_systematization_makes:
  "makes gt_position_systematization
     [Open (asc ''positions''), Var (asc ''positionName''), Var (asc ''department''),
      Var (asc ''totalCount''), Var (asc ''maleCount''), Var (asc ''femaleCount''),
      Var (asc ''requiredEducation''), Var (asc ''requiredExperience''),
      Close (asc ''positions'')]
     []"
  unfolding makes_def gt_position_systematization_def
  apply (intro exI conjI)
    apply ((rule build_rules | simp)+)[1]
   apply (simp add: tokens_in_def texts_of_def asc_def replicate_numeral_Cons)
  apply (simp add: restated_def texts_of_def asc_def level_at_def replicate_numeral_Cons)
  done

lemma gt_risk_assessment_makes:
  "makes gt_risk_assessment
     [Open (asc ''positions''), Var (asc ''positionName''), Open (asc ''risks''),
      Var (asc ''hazardName''), Var (asc ''hazardCode''), Var (asc ''hazardCategory''),
      Var (asc ''ei''), Var (asc ''pi''), Var (asc ''fi''), Var (asc ''ri''),
      Var (asc ''initialRiskLevel''), Var (asc ''correctiveMeasures''), Var (asc ''e''),
      Var (asc ''p''), Var (asc ''f''), Var (asc ''r''), Var (asc ''riskLevel''),
      Open (asc ''isHighRisk''), Close (asc ''isHighRisk''), Close (asc ''risks''),
      Close (asc ''positions'')]
     []"
  unfolding makes_def gt_risk_assessment_def
  apply (intro exI conjI)
    apply ((rule build_rules | simp)+)[1]
   apply (simp add: tokens_in_def texts_of_def asc_def replicate_numeral_Cons)
  apply (simp add: restated_def texts_of_def asc_def level_at_def replicate_numeral_Cons)
  done

lemma gt_summary_makes:
  "makes gt_summary
     [Var (asc ''summary.totalPositions''), Var (asc ''summary.totalRisks''),
      Var (asc ''summary.highRiskPositions''), Var (asc ''summary.lowRiskCount''),
      Var (asc ''summary.mediumRiskCount''), Var (asc ''summary.highRiskCount'')]
     [(Low, [8804, 51, 54]), (Medium, asc ''37-70''), (High, asc ''>70'')]"
  unfolding makes_def gt_summary_def
  apply (intro exI conjI)
    apply ((rule build_rules | simp)+)[1]
   apply (simp add: tokens_in_def texts_of_def asc_def replicate_numeral_Cons)
  apply (simp add: restated_def texts_of_def asc_def level_at_def replicate_numeral_Cons)
  done

lemma gt_signatures_makes:
  "makes gt_signatures
     [Var (asc ''company.director''), Var (asc ''company.bzrResponsiblePerson''),
      Var (asc ''metadata.generatedDate'')]
     []"
  unfolding makes_def gt_signatures_def
  apply (intro exI conjI)
    apply ((rule build_rules | simp)+)[1]
   apply (simp add: tokens_in_def texts_of_def asc_def replicate_numeral_Cons)
  apply (simp add: restated_def texts_of_def asc_def level_at_def replicate_numeral_Cons)
  done

text \<open>The whole template of \<^verbatim>\<open>generate-template.py\<close>: its tokens in document order, and its restatements.\<close>

lemma gt_build_makes:
  "makes gt_build
     [Var (asc ''company.name''), Var (asc ''company.pib''), Var (asc ''company.address''),
      Var (asc ''metadata.generatedDate''), Var (asc ''metadata.validityPeriod''),
      Var (asc ''company.name''), Var (asc ''company.pib''), Var (asc ''company.address''),
      Var (asc ''company.city''), Var (asc ''company.activityCode''),
      Var (asc ''company.activityDescription''), Var (asc ''company.employeeCount''),
      Var (asc ''company.director''), Var (asc ''company.bzrResponsiblePerson''),
      Open (asc ''positions''), Var (asc ''positionName''), Var (asc ''department''),
      Var (asc ''totalCount''), Var (asc ''maleCount''), Var (asc ''femaleCount''),
      Var (asc ''requiredEducation''), Var (asc ''requiredExperience''),
      Close (asc ''positions''), Open (asc ''positions''), Var (asc ''positionName''),
      Open (asc ''risks''), Var (asc ''hazardName''), Var (asc ''hazardCode''),
      Var (asc ''hazardCategory''), Var (asc ''ei''), Var (asc ''pi''), Var (asc ''fi''),
      Var (asc ''ri''), Var (asc ''initialRiskLevel''), Var (asc ''correctiveMeasures''),
      Var (asc ''e''), Var (asc ''p''), Var (asc ''f''), Var (asc ''r''),
      Var (asc ''riskLevel''), Open (asc ''isHighRisk''), Close (asc ''isHighRisk''),
      Close (asc ''risks''), Close (asc ''positions''),
      Var (asc ''summary.totalPositions''), Var (asc ''summary.totalRisks''),
      Var (asc ''summary.highRiskPositions''), Var (asc ''summary.lowRiskCount''),
      Var (asc ''summary.mediumRiskCount''), Var (asc ''summary.highRiskCount''),
      Var (asc ''company.director''), Var (asc ''company.bzrResponsiblePerson''),
      Var (asc ''metadata.generatedDate'')]
     [(Low, [8804, 51, 54]), (Medium, asc ''37-70''), (High, asc ''>70'')]"
  unfolding gt_build_def
  apply (rule makes_eq)
    apply ((rule makes_seq_Cons makes_seq_Nil
      gt_title_page_makes
      gt_company_information_makes
      gt_position_systematization_makes
      gt_risk_assessment_makes
      gt_summary_makes
      gt_signatures_makes)+)[1]
   apply simp
  apply simp
  done



section \<open>Runs of the generators\<close>

lemma fold_print: "fold print ss w = w\<lparr>console := console w @ ss\<rparr>"
  by (induction ss arbitrary: w) (simp_all add: print_def)

lemma cr_build_runs: "\<exists>doc. cr_build Document = Inr doc"
  using makes_built [OF cr_build_makes] by blast

lemma ct_build_runs: "\<exists>doc. ct_build Document = Inr doc"
  using makes_built [OF ct_build_makes] by blast

lemma gt_build_runs: "\<exists>doc. gt_build Document = Inr doc"
  using makes_built [OF gt_build_makes] by blast

lemma create_template_py_run:
  assumes "cr_build Document = Inr doc"
  shows "create_template_py env w =
     (case import_docx env of
        Some e \<Rightarrow> (Some e, w)
      | None \<Rightarrow>
          (case new_Document env of
             Some e \<Rightarrow> (Some e, w)
           | None \<Rightarrow>
               (case save_file env cr_output_path of
                  Some e \<Rightarrow> (Some e, w)
                | None \<Rightarrow>
                    (None, w\<lparr>files := (files w)(cr_output_path \<mapsto> DocxFile doc),
                              saved := saved w @ [cr_output_path],
                              console := console w @ cr_prints doc\<rparr>))))"
  using assms
  by (simp add: create_template_py_def doc_save_def fold_print split: option.splits)

lemma create_template_run:
  assumes "ct_build Document = Inr doc"
  shows "create_template env w =
     (case new_Document env of
        Some e \<Rightarrow> (Some e, w)
      | None \<Rightarrow>
          (case save_file env ct_output_path of
             Some e \<Rightarrow> (Some e, w)
           | None \<Rightarrow>
               (None, w\<lparr>files := (files w)(ct_output_path \<mapsto> DocxFile doc),
                         saved := saved w @ [ct_output_path],
                         console := console w @ ct_prints doc\<rparr>)))"
  using assms
  by (simp add: create_template_def doc_save_def fold_print split: option.splits)

lemma generate_template_run:
  assumes "gt_build Document = Inr doc"
  shows "generate_template env w =
     (case new_Document env of
        Some e \<Rightarrow> (Some e, w)
      | None \<Rightarrow>
          (case save_file env gt_output_path of
             Some e \<Rightarrow> (Some e, w)
           | None \<Rightarrow>
               (None, w\<lparr>files := (files w)(gt_output_path \<mapsto> DocxFile doc),
                         saved := saved w @ [gt_output_path],
                         console := console w @ gt_prints doc\<rparr>)))"
  using assms
  by (simp add: generate_template_def doc_save_def fold_print split: option.splits)







text \<open>
  Claim C10. A generator reads no input: whenever two runs of the same generator, in any two
  environments and worlds, each save a document, it is the same document.
\<close>

theorem generators_are_deterministic:
  "(saved (snd (create_template_py env w)) \<noteq> saved w \<and>
    saved (snd (create_template_py env' w')) \<noteq> saved w' \<longrightarrow>
      (\<exists>doc. files (snd (create_template_py env w)) cr_output_path = Some (DocxFile doc) \<and>
             files (snd (create_template_py env' w')) cr_output_path = Some (DocxFile doc))) \<and>
   (saved (snd (generate_docx_template_main env w)) \<noteq> saved w \<and>
    saved (snd (generate_docx_template_main env' w')) \<noteq> saved w' \<longrightarrow>
      (\<exists>doc. files (snd (generate_docx_template_main env w)) ct_output_path = Some (DocxFile doc) \<and>
             files (snd (generate_docx_template_main env' w')) ct_output_path = Some (DocxFile doc))) \<and>
   (saved (snd (generate_template_main env w)) \<noteq> saved w \<and>
    saved (snd (generate_template_main env' w')) \<noteq> saved w' \<longrightarrow>
      (\<exists>doc. files (snd (generate_template_main env w)) gt_output_path = Some (DocxFile doc) \<and>
             files (snd (generate_template_main env' w')) gt_output_path = Some (DocxFile doc)))"
proof -
  obtain ct_doc where ct: "ct_build Document = Inr ct_doc" using ct_build_runs by blast
  obtain cr_doc where cr: "cr_build Document = Inr cr_doc" using cr_build_runs by blast
  obtain gt_doc where gt: "gt_build Document = Inr gt_doc" using gt_build_runs by blast
  have a: "\<And>env w. saved (snd (create_template_py env w)) \<noteq> saved w \<Longrightarrow>
      files (snd (create_template_py env w)) cr_output_path = Some (DocxFile cr_doc)"
    by (auto simp: create_template_py_run [OF cr] split: option.splits)
  have b: "\<And>env w. saved (snd (generate_docx_template_main env w)) \<noteq> saved w \<Longrightarrow>
      files (snd (generate_docx_template_main env w)) ct_output_path = Some (DocxFile ct_doc)"
    by (auto simp: generate_docx_template_main_def create_template_run [OF ct] fold_print
        split: option.splits if_splits)
  have c: "\<And>env w. saved (snd (generate_template_main env w)) \<noteq> saved w \<Longrightarrow>
      files (snd (generate_template_main env w)) gt_output_path = Some (DocxFile gt_doc)"
    by (auto simp: generate_template_main_def generate_template_run [OF gt] split: option.splits)
  from a b c show ?thesis by blast
qed

text \<open>
  Witness for C10: a run on an empty world and a run on a world that holds the JSON file of
  the merge script.
\<close>

theorem generators_are_deterministic_witness:
  "(\<exists>doc. files (snd (create_template_py env_ok empty_world)) cr_output_path =
            Some (DocxFile doc) \<and>
          files (snd (create_template_py env_ok (world_with (sample_data sample_positions))))
            cr_output_path = Some (DocxFile doc)) \<and>
   (\<exists>doc. files (snd (generate_docx_template_main env_ok empty_world)) ct_output_path =
            Some (DocxFile doc) \<and>
          files (snd (generate_docx_template_main env_ok
            (world_with (sample_data sample_positions)))) ct_output_path = Some (DocxFile doc)) \<and>
   (\<exists>doc. files (snd (generate_template_main env_ok empty_world)) gt_output_path =
            Some (DocxFile doc) \<and>
          files (snd (generate_template_main env_ok (world_with (sample_data sample_positions))))
            gt_output_path = Some (DocxFile doc))"
proof -
  obtain ct_doc where ct: "ct_build Document = Inr ct_doc" using ct_build_runs by blast
  obtain cr_doc where cr: "cr_build Document = Inr cr_doc" using cr_build_runs by blast
  obtain gt_doc where gt: "gt_build Document = Inr gt_doc" using gt_build_runs by blast
  have s1: "saved (snd (create_template_py env_ok w)) \<noteq> saved w" for w
    by (simp add: create_template_py_run [OF cr] env_ok_def)
  have s2: "saved (snd (generate_docx_template_main env_ok w)) \<noteq> saved w" for w
    by (simp add: generate_docx_template_main_def create_template_run [OF ct] env_ok_def)
  have s3: "saved (snd (generate_template_main env_ok w)) \<noteq> saved w" for w
    by (simp add: generate_template_main_def generate_template_run [OF gt] env_ok_def)
  show ?thesis
    using generators_are_deterministic
      [of env_ok empty_world env_ok "world_with (sample_data sample_positions)"]
      s1 s2 s3
    by blast
qed


section \<open>backend/merge_all_results.py: what a run reports\<close>

lemma claude_positions_count_79: "claude_positions_count = 79"
  by (simp add: claude_positions_count_def)

lemma str_nat_79: "str_nat 79 = asc ''79''"
  by (simp add: str_nat.simps asc_def)

lemma merge_report_1:
  "merge_report n ! 1 = [128202] @ asc '' Claude rezultati: ~79 pozicija (chunk 1, 3, 6, 7, 8)''"
  by (simp add: merge_report_def claude_positions_count_79 str_nat_79 asc_def)

lemma merge_report_2:
  "merge_report n ! 2 =
     [128202] @ asc '' Ukupno pozicija: ~'' @ str_nat (n + 79) @ asc '' od 137'' @ [10]"
  by (simp add: merge_report_def total_estimated_def claude_positions_count_79)

lemma merge_accepted:
  assumes "merge_all_results w = (None, w')"
  shows "\<exists>data positions n.
           files w backup_json = Some (JsonFile data) \<and>
           getitem_str data (asc ''positions'') = Inr positions \<and>
           py_len positions = Inr n \<and>
           w' = w\<lparr>console := console w @ merge_report n\<rparr>"
  using assms
  by (auto simp: merge_all_results_def load_json_def fold_print
      split: option.splits content.splits sum.splits)

lemma merge_list:
  assumes "files w backup_json = Some (JsonFile data)"
    "getitem_str data (asc ''positions'') = Inr (PList ps)"
  shows "merge_all_results w = (None, w\<lparr>console := console w @ merge_report (length ps)\<rparr>)"
  using assms by (simp add: merge_all_results_def load_json_def fold_print)

lemma sample_file:
  "files (world_with v) backup_json = Some (JsonFile v)"
  by (simp add: world_with_def)

lemma sample_positions_found:
  "getitem_str (sample_data ps) (asc ''positions'') = Inr (PList ps)"
  by (simp add: sample_data_def)

text \<open>
  Claim C9. Whenever the merge script accepts its input, the file holds a value with a
  \<^verbatim>\<open>positions\<close> entry of some length \<open>n\<close> (for a list,
  its number of elements); the second line printed gives the Claude count as 79, whatever
  the input, and the third gives the total as \<open>n + 79\<close>.
\<close>

theorem merge_reports_79_and_total:
  assumes "merge_all_results w = (None, w')"
  shows "\<exists>data positions n.
           files w backup_json = Some (JsonFile data) \<and>
           getitem_str data (asc ''positions'') = Inr positions \<and>
           py_len positions = Inr n \<and>
           (\<forall>ps. positions = PList ps \<longrightarrow> n = length ps) \<and>
           console w' = console w @ merge_report n \<and>
           merge_report n ! 1 =
             [128202] @ asc '' Claude rezultati: ~79 pozicija (chunk 1, 3, 6, 7, 8)'' \<and>
           merge_report n ! 2 =
             [128202] @ asc '' Ukupno pozicija: ~'' @ str_nat (n + 79) @ asc '' od 137'' @ [10]"
proof -
  from merge_accepted [OF assms] obtain data positions n where
    a: "files w backup_json = Some (JsonFile data)"
       "getitem_str data (asc ''positions'') = Inr positions"
       "py_len positions = Inr n"
       "w' = w\<lparr>console := console w @ merge_report n\<rparr>"
    by blast
  have l: "\<forall>ps. positions = PList ps \<longrightarrow> n = length ps"
    using a(3) by auto
  have c: "console w' = console w @ merge_report n"
    using a(4) by simp
  show ?thesis
    using a(1) a(2) a(3) l c merge_report_1 [of n] merge_report_2 [of n] by blast
qed

text \<open>
  Witness for C9: a file with two position records; the total printed is 81.
\<close>

theorem merge_reports_79_and_total_witness:
  "merge_all_results (world_with (sample_data sample_positions)) =
     (None, (world_with (sample_data sample_positions))\<lparr>console := merge_report 2\<rparr>) \<and>
   (\<exists>n. py_len (PList sample_positions) = Inr n \<and> n = 2 \<and>
      merge_report n ! 2 = [128202] @ asc '' Ukupno pozicija: ~81 od 137'' @ [10])"
proof -
  have len: "length sample_positions = 2"
    by (simp add: sample_positions_def)
  have run: "merge_all_results (world_with (sample_data sample_positions)) =
     (None, (world_with (sample_data sample_positions))\<lparr>console := merge_report 2\<rparr>)"
    using merge_list [OF sample_file sample_positions_found, of sample_positions]
    by (simp add: len world_with_def)
  from merge_reports_79_and_total [OF run] obtain data positions n where
    a: "files (world_with (sample_data sample_positions)) backup_json = Some (JsonFile data)"
       "getitem_str data (asc ''positions'') = Inr positions"
       "py_len positions = Inr n"
       "merge_report n ! 2 =
          [128202] @ asc '' Ukupno pozicija: ~'' @ str_nat (n + 79) @ asc '' od 137'' @ [10]"
    by blast
  from a(1) have "data = sample_data sample_positions" by (simp add: sample_file)
  with a(2) have "positions = PList sample_positions" by (simp add: sample_positions_found)
  with a(3) have n: "n = 2" by (simp add: len)
  have "str_nat (2 + 79) = asc ''81''" by (simp add: str_nat.simps asc_def)
  with a(4) n have "merge_report n ! 2 = [128202] @ asc '' Ukupno pozicija: ~81 od 137'' @ [10]"
    by (simp add: asc_def)
  with run n len show ?thesis by simp
qed


text \<open>
  Counterexample to C2 as stated: a JSON file whose top level is a list of position records
  is not accepted. \<^verbatim>\<open>deepseek_data['positions']\<close> on a list raises
  \<^verbatim>\<open>TypeError\<close>, and nothing is printed.
\<close>

theorem merge_rejects_top_level_list:
  "merge_all_results (world_with (PList sample_positions)) =
     (Some TypeError, world_with (PList sample_positions))"
  by (simp add: merge_all_results_def load_json_def world_with_def)

text \<open>
  Claim C2, as amended. The merge script accepts exactly the files whose JSON value is an
  object with a member \<^verbatim>\<open>positions\<close> that has a length (a list of
  position records is one). In every run, accepted or not, its only effect is on the
  console: the files stay as they were and no document is saved.
\<close>

theorem merge_input_and_output:
  "files (snd (merge_all_results w)) = files w \<and>
   saved (snd (merge_all_results w)) = saved w \<and>
   (\<exists>out. console (snd (merge_all_results w)) = console w @ out) \<and>
   (fst (merge_all_results w) = None) =
     (\<exists>members positions n.
        files w backup_json = Some (JsonFile (PDict members)) \<and>
        map_of (rev members) (asc ''positions'') = Some positions \<and>
        py_len positions = Inr n)"
proof -
  have f: "files (snd (merge_all_results w)) = files w"
    by (simp add: merge_all_results_def fold_print split: sum.splits)
  have s: "saved (snd (merge_all_results w)) = saved w"
    by (simp add: merge_all_results_def fold_print split: sum.splits)
  have c: "\<exists>out. console (snd (merge_all_results w)) = console w @ out"
    by (simp add: merge_all_results_def fold_print split: sum.splits)
  have a: "(fst (merge_all_results w) = None) =
     (\<exists>members positions n.
        files w backup_json = Some (JsonFile (PDict members)) \<and>
        map_of (rev members) (asc ''positions'') = Some positions \<and>
        py_len positions = Inr n)"
  proof
    assume "fst (merge_all_results w) = None"
    then have "merge_all_results w = (None, snd (merge_all_results w))"
      by (metis prod.collapse)
    from merge_accepted [OF this] obtain data positions n where
      d: "files w backup_json = Some (JsonFile data)"
         "getitem_str data (asc ''positions'') = Inr positions"
         "py_len positions = Inr n"
      by blast
    from d(2) obtain members where m: "data = PDict members"
      by (cases data) simp_all
    with d(2) have "map_of (rev members) (asc ''positions'') = Some positions"
      by (simp split: option.splits)
    with d(1) d(3) m show "\<exists>members positions n.
        files w backup_json = Some (JsonFile (PDict members)) \<and>
        map_of (rev members) (asc ''positions'') = Some positions \<and>
        py_len positions = Inr n"
      by blast
  next
    assume "\<exists>members positions n.
        files w backup_json = Some (JsonFile (PDict members)) \<and>
        map_of (rev members) (asc ''positions'') = Some positions \<and>
        py_len positions = Inr n"
    then show "fst (merge_all_results w) = None"
      by (auto simp: merge_all_results_def load_json_def fold_print)
  qed
  from f s c a show ?thesis by blast
qed

text \<open>
  Witness for C2: a file that holds an object with two position records.
\<close>

theorem merge_input_and_output_witness:
  "fst (merge_all_results (world_with (sample_data sample_positions))) = None \<and>
   files (snd (merge_all_results (world_with (sample_data sample_positions)))) =
     [backup_json \<mapsto> JsonFile (sample_data sample_positions)] \<and>
   saved (snd (merge_all_results (world_with (sample_data sample_positions)))) = []"
proof -
  have "\<exists>members positions n.
      files (world_with (sample_data sample_positions)) backup_json =
        Some (JsonFile (PDict members)) \<and>
      map_of (rev members) (asc ''positions'') = Some positions \<and> py_len positions = Inr n"
    by (simp add: world_with_def sample_data_def)
  then show ?thesis
    using merge_input_and_output [of "world_with (sample_data sample_positions)"]
    by (simp add: world_with_def)
qed

text \<open>
  Claim C6. The merge script does not merge: for two input files that hold position lists of
  the same length, whatever the records are and in whatever order, both runs end normally
  and print the same report; the world is otherwise unchanged, so no merged, sorted or
  deduplicated dataset is produced.
\<close>

theorem merge_only_counts:
  assumes "files w backup_json = Some (JsonFile data)"
    and "getitem_str data (asc ''positions'') = Inr (PList ps)"
    and "files w' backup_json = Some (JsonFile data')"
    and "getitem_str data' (asc ''positions'') = Inr (PList ps')"
    and "length ps = length ps'"
  shows "\<exists>report.
           merge_all_results w = (None, w\<lparr>console := console w @ report\<rparr>) \<and>
           merge_all_results w' = (None, w'\<lparr>console := console w' @ report\<rparr>)"
proof (intro exI conjI)
  show "merge_all_results w = (None, w\<lparr>console := console w @ merge_report (length ps)\<rparr>)"
    by (rule merge_list [OF assms(1) assms(2)])
  show "merge_all_results w' = (None, w'\<lparr>console := console w' @ merge_report (length ps)\<rparr>)"
    using merge_list [OF assms(3) assms(4)] assms(5) by simp
qed

text \<open>
  Witness for C6: two records, the same two in reverse order, and the first record twice
  give one and the same report.
\<close>

theorem merge_only_counts_witness:
  "\<exists>report.
     merge_all_results (world_with (sample_data sample_positions)) =
       (None, (world_with (sample_data sample_positions))\<lparr>console := report\<rparr>) \<and>
     merge_all_results (world_with (sample_data (rev sample_positions))) =
       (None, (world_with (sample_data (rev sample_positions)))\<lparr>console := report\<rparr>) \<and>
     merge_all_results (world_with (sample_data [hd sample_positions, hd sample_positions])) =
       (None, (world_with (sample_data [hd sample_positions, hd sample_positions]))
                \<lparr>console := report\<rparr>)"
proof -
  have len: "length sample_positions = 2"
    by (simp add: sample_positions_def)
  have c: "console (world_with v) = []" for v
    by (simp add: world_with_def)
  from merge_only_counts [OF sample_file sample_positions_found sample_file sample_positions_found,
      of sample_positions "rev sample_positions"]
  obtain r1 where r1:
    "merge_all_results (world_with (sample_data sample_positions)) =
       (None, (world_with (sample_data sample_positions))\<lparr>console := r1\<rparr>)"
    "merge_all_results (world_with (sample_data (rev sample_positions))) =
       (None, (world_with (sample_data (rev sample_positions)))\<lparr>console := r1\<rparr>)"
    by (auto simp: c)
  from merge_only_counts [OF sample_file sample_positions_found sample_file sample_positions_found,
      of sample_positions "[hd sample_positions, hd sample_positions]"] len
  obtain r2 where r2:
    "merge_all_results (world_with (sample_data sample_positions)) =
       (None, (world_with (sample_data sample_positions))\<lparr>console := r2\<rparr>)"
    "merge_all_results (world_with (sample_data [hd sample_positions, hd sample_positions])) =
       (None, (world_with (sample_data [hd sample_positions, hd sample_positions]))
                \<lparr>console := r2\<rparr>)"
    by (auto simp: c)
  from r1(1) r2(1) have "r1 = r2"
    by (simp add: world_with_def)
  with r1 r2 show ?thesis by blast
qed


section \<open>No script reads the risk data\<close>

lemma files_update_create_template_py:
  assumes "cr_build Document = Inr doc"
  shows "fst (create_template_py env (v\<lparr>files := fs\<rparr>)) = fst (create_template_py env v) \<and>
         console (snd (create_template_py env (v\<lparr>files := fs\<rparr>))) =
         console (snd (create_template_py env v))"
  by (simp add: create_template_py_run [OF assms] split: option.splits)

lemma files_update_generate_docx_template_main:
  assumes "ct_build Document = Inr doc"
  shows "fst (generate_docx_template_main env (v\<lparr>files := fs\<rparr>)) =
         fst (generate_docx_template_main env v) \<and>
         console (snd (generate_docx_template_main env (v\<lparr>files := fs\<rparr>))) =
         console (snd (generate_docx_template_main env v))"
  by (simp add: generate_docx_template_main_def create_template_run [OF assms] fold_print
      split: option.splits)

lemma files_update_generate_template_main:
  assumes "gt_build Document = Inr doc"
  shows "fst (generate_template_main env (v\<lparr>files := fs\<rparr>)) =
         fst (generate_template_main env v) \<and>
         console (snd (generate_template_main env (v\<lparr>files := fs\<rparr>))) =
         console (snd (generate_template_main env v))"
  by (simp add: generate_template_main_def generate_template_run [OF assms]
      split: option.splits)

text \<open>
  Claim C8. No script checks a risk: the merge script accepts every list of position
  records, whatever they hold, and its report depends on the length of the list only; the
  outcome and the prints of the three generators do not depend on the files of the world,
  from which alone risk data could come.
\<close>

theorem no_script_checks_the_invariants:
  "(files w backup_json = Some (JsonFile data) \<and>
    getitem_str data (asc ''positions'') = Inr (PList ps) \<longrightarrow>
      merge_all_results w = (None, w\<lparr>console := console w @ merge_report (length ps)\<rparr>)) \<and>
   fst (create_template_py env (v\<lparr>files := fs\<rparr>)) = fst (create_template_py env v) \<and>
   console (snd (create_template_py env (v\<lparr>files := fs\<rparr>))) =
     console (snd (create_template_py env v)) \<and>
   fst (generate_docx_template_main env (v\<lparr>files := fs\<rparr>)) =
     fst (generate_docx_template_main env v) \<and>
   console (snd (generate_docx_template_main env (v\<lparr>files := fs\<rparr>))) =
     console (snd (generate_docx_template_main env v)) \<and>
   fst (generate_template_main env (v\<lparr>files := fs\<rparr>)) = fst (generate_template_main env v) \<and>
   console (snd (generate_template_main env (v\<lparr>files := fs\<rparr>))) =
     console (snd (generate_template_main env v))"
proof -
  obtain ct_doc where ct: "ct_build Document = Inr ct_doc" using ct_build_runs by blast
  obtain cr_doc where cr: "cr_build Document = Inr cr_doc" using cr_build_runs by blast
  obtain gt_doc where gt: "gt_build Document = Inr gt_doc" using gt_build_runs by blast
  have m: "files w backup_json = Some (JsonFile data) \<and>
    getitem_str data (asc ''positions'') = Inr (PList ps) \<longrightarrow>
      merge_all_results w = (None, w\<lparr>console := console w @ merge_report (length ps)\<rparr>)"
    using merge_list by blast
  show ?thesis
    using m files_update_create_template_py [OF cr, where env = env and v = v and fs = fs]
      files_update_generate_docx_template_main [OF ct, where env = env and v = v and fs = fs]
      files_update_generate_template_main [OF gt, where env = env and v = v and fs = fs]
    by blast
qed

text \<open>
  Witness for C8: the merge script accepts a file whose second record has the score 99 for
  the factors 2, 3 and 4 and the level low, against both invariants.
\<close>

theorem no_script_checks_the_invariants_witness:
  "merge_all_results (world_with (sample_data sample_positions)) =
     (None, (world_with (sample_data sample_positions))\<lparr>console := merge_report 2\<rparr>) \<and>
   sample_positions ! 1 =
     PDict [(asc ''positionNumber'', PInt 1), (asc ''positionName'', PStr (asc ''Vozac'')),
            (asc ''risks'', PList [PDict [(asc ''e'', PInt 2), (asc ''p'', PInt 3),
               (asc ''f'', PInt 4), (asc ''r'', PInt 99), (asc ''riskLevel'', PStr (asc ''low''))]])] \<and>
   risk_score 2 3 4 \<noteq> 99 \<and> risk_level 99 \<noteq> Low"
proof -
  have len: "length sample_positions = 2"
    by (simp add: sample_positions_def)
  have "merge_all_results (world_with (sample_data sample_positions)) =
     (None, (world_with (sample_data sample_positions))\<lparr>console := merge_report 2\<rparr>)"
    using no_script_checks_the_invariants
      [of "world_with (sample_data sample_positions)" "sample_data sample_positions"
          sample_positions]
      sample_file sample_positions_found
    by (simp add: len world_with_def)
  then show ?thesis
    by (simp add: sample_positions_def risk_score_def risk_level_def)
qed


section \<open>The templates: loops and placeholders\<close>

lemmas cr_tokens = makes_template_tokens [OF cr_build_makes]
lemmas ct_tokens = makes_template_tokens [OF ct_build_makes]
lemmas gt_tokens = makes_template_tokens [OF gt_build_makes]

lemma nested_balanced: "nested st ts \<Longrightarrow> length st + opens ts = closes ts"
  by (induction st ts rule: nested.induct) (auto split: if_splits)

lemma within_positions_stray: "within_positions st ts = (stray_loops st ts = [])"
  by (induction st ts rule: within_positions.induct) auto

lemma templates_built:
  "built cr_build \<noteq> None \<and> built ct_build \<noteq> None \<and> built gt_build \<noteq> None"
  using makes_built [OF cr_build_makes] makes_built [OF ct_build_makes]
    makes_built [OF gt_build_makes]
  by auto

text \<open>
  Counterexample to C5 as stated: the template of \<^verbatim>\<open>create_template.py\<close> opens
  \<^verbatim>\<open>{{#summary_risks}}\<close>, a loop over risk records (the rows of its summary table,
  lines 243 to 247), at document scope, after the \<^verbatim>\<open>positions\<close> loop of the risk
  assessment is closed.
\<close>

theorem summary_risks_loop_outside_positions:
  "\<not> within_positions [] (template_tokens cr_build)"
  by (simp add: cr_tokens sub_loops_def asc_def)

text \<open>
  Claim C5, as amended. In each of the three templates the loop markers match like
  brackets (each \<^verbatim>\<open>{{#x}}\<close> is closed by a later \<^verbatim>\<open>{{/x}}\<close> of the same name, innermost
  first). In the templates of \<^verbatim>\<open>generate-docx-template.py\<close> and \<^verbatim>\<open>generate-template.py\<close> the
  loops of risks, PPE, training and medical exams are opened only inside a \<^verbatim>\<open>positions\<close>
  loop; in the template of \<^verbatim>\<open>create_template.py\<close> they are too, but for one loop: the flat
  \<^verbatim>\<open>{{#summary_risks}}\<close> loop, which is opened at document scope. The loops each template
  opens are listed in document order.
\<close>

theorem loops_balanced_and_nested_but_summary_risks:
  "built cr_build \<noteq> None \<and> built ct_build \<noteq> None \<and> built gt_build \<noteq> None \<and>
   nested [] (template_tokens cr_build) \<and>
   stray_loops [] (template_tokens cr_build) = [asc ''summary_risks''] \<and>
   nested [] (template_tokens ct_build) \<and> within_positions [] (template_tokens ct_build) \<and>
   nested [] (template_tokens gt_build) \<and> within_positions [] (template_tokens gt_build) \<and>
   loop_names (template_tokens cr_build) =
     [asc ''positions'', asc ''positions'', asc ''risks'', asc ''summary_risks'',
      asc ''positions'', asc ''has_ppe'', asc ''ppe_items'',
      asc ''positions'', asc ''has_training'', asc ''training_requirements'',
      asc ''positions'', asc ''has_medical'', asc ''medical_exams''] \<and>
   loop_names (template_tokens ct_build) =
     [asc ''positions'', asc ''positions'', asc ''risks'', asc ''summary.highRiskPositions''] \<and>
   loop_names (template_tokens gt_build) =
     [asc ''positions'', asc ''positions'', asc ''risks'', asc ''isHighRisk'']"
proof -
  have cr: "nested [] (template_tokens cr_build) \<and>
      stray_loops [] (template_tokens cr_build) = [asc ''summary_risks'']"
    by (simp add: cr_tokens sub_loops_def asc_def)
  have ct: "nested [] (template_tokens ct_build) \<and> within_positions [] (template_tokens ct_build)"
    by (simp add: ct_tokens sub_loops_def asc_def)
  have gt: "nested [] (template_tokens gt_build) \<and> within_positions [] (template_tokens gt_build)"
    by (simp add: gt_tokens sub_loops_def asc_def)
  have lcr: "loop_names (template_tokens cr_build) =
     [asc ''positions'', asc ''positions'', asc ''risks'', asc ''summary_risks'',
      asc ''positions'', asc ''has_ppe'', asc ''ppe_items'',
      asc ''positions'', asc ''has_training'', asc ''training_requirements'',
      asc ''positions'', asc ''has_medical'', asc ''medical_exams'']"
    by (simp add: cr_tokens)
  have lct: "loop_names (template_tokens ct_build) =
     [asc ''positions'', asc ''positions'', asc ''risks'', asc ''summary.highRiskPositions'']"
    by (simp add: ct_tokens)
  have lgt: "loop_names (template_tokens gt_build) =
     [asc ''positions'', asc ''positions'', asc ''risks'', asc ''isHighRisk'']"
    by (simp add: gt_tokens)
  from templates_built cr ct gt lcr lct lgt show ?thesis by blast
qed






text \<open>
  A remark on \<^verbatim>\<open>generate-docx-template.py\<close>: the risk table is appended (line 204) before
  the paragraph \<^verbatim>\<open>{{#risks}}\<close> (line 223), so its eleven placeholders stand in the body of
  the second \<^verbatim>\<open>positions\<close> loop before the \<^verbatim>\<open>risks\<close> loop is opened, and the \<^verbatim>\<open>risks\<close> loop is
  closed as soon as it is opened.
\<close>

lemma ct_risk_row_stands_before_the_risks_loop:
  "bodies_of (asc ''positions'') (template_tokens ct_build) ! 1 =
     [Var (asc ''@index''), Var (asc ''positionName''), Var (asc ''hazardName''),
      Var (asc ''ei''), Var (asc ''pi''), Var (asc ''fi''), Var (asc ''ri''),
      Var (asc ''correctiveMeasures''), Var (asc ''e''), Var (asc ''p''), Var (asc ''f''),
      Var (asc ''r''), Var (asc ''riskLevel''), Open (asc ''risks''), Close (asc ''risks'')]"
  by (simp add: bodies_of_def ct_tokens asc_def)


section \<open>The templates: risk levels\<close>

lemma thresholds_classify: "in_bounds (thresholds l) r = (risk_level r = l)"
  by (cases l) (auto simp: risk_level_def)

lemma parse_le_36: "parse_cond [1056, 32, 8804, 32, 51, 54] = Some (Bounds None (Some 36))"
  by (simp add: parse_cond_def)

lemma parse_36_70:
  "parse_cond [51, 54, 32, 60, 32, 1056, 32, 8804, 32, 55, 48] = Some (Bounds (Some 37) (Some 70))"
  by (simp add: parse_cond_def)

lemma parse_gt_70: "parse_cond [1056, 32, 62, 32, 55, 48] = Some (Bounds (Some 71) None)"
  by (simp add: parse_cond_def)

lemma parse_le36: "parse_cond [8804, 51, 54] = Some (Bounds None (Some 36))"
  by (simp add: parse_cond_def)

lemma parse_37_70: "parse_cond (asc ''37-70'') = Some (Bounds (Some 37) (Some 70))"
  by (simp add: parse_cond_def asc_def)

lemma parse_gt70: "parse_cond (asc ''>70'') = Some (Bounds (Some 71) None)"
  by (simp add: parse_cond_def asc_def)

lemmas parses = parse_le_36 parse_36_70 parse_gt_70 parse_le36 parse_37_70 parse_gt70

text \<open>
  Claim C3. Every restatement of the risk levels in the three templates denotes the fixed
  thresholds: low up to 36, medium 37 to 70, high from 71. The template of
  \<^verbatim>\<open>generate-docx-template.py\<close> restates them three times
  (introduction, note under the risk table, summary), each time with the same three
  conditions; the template of \<^verbatim>\<open>generate-template.py\<close> restates them
  once, in its summary; the template of \<^verbatim>\<open>create_template.py\<close>
  restates none.
\<close>

theorem risk_levels_restated_consistently:
  "built cr_build \<noteq> None \<and> built ct_build \<noteq> None \<and> built gt_build \<noteq> None \<and>
   restated (template_texts ct_build) =
     [(Low, [1056, 32, 8804, 32, 51, 54]),
      (Medium, [51, 54, 32, 60, 32, 1056, 32, 8804, 32, 55, 48]),
      (High, [1056, 32, 62, 32, 55, 48]),
      (Low, [1056, 32, 8804, 32, 51, 54]),
      (Medium, [51, 54, 32, 60, 32, 1056, 32, 8804, 32, 55, 48]),
      (High, [1056, 32, 62, 32, 55, 48]),
      (Low, [1056, 32, 8804, 32, 51, 54]),
      (Medium, [51, 54, 32, 60, 32, 1056, 32, 8804, 32, 55, 48]),
      (High, [1056, 32, 62, 32, 55, 48])] \<and>
   restated (template_texts gt_build) =
     [(Low, [8804, 51, 54]), (Medium, asc ''37-70''), (High, asc ''>70'')] \<and>
   restated (template_texts cr_build) = [] \<and>
   list_all consistent (restated (template_texts ct_build)) \<and>
   list_all consistent (restated (template_texts gt_build)) \<and>
   list_all consistent (restated (template_texts cr_build))"
  using makes_built [OF cr_build_makes] makes_built [OF ct_build_makes]
    makes_built [OF gt_build_makes]
  by (auto simp: makes_template_restated [OF ct_build_makes]
      makes_template_restated [OF gt_build_makes] makes_template_restated [OF cr_build_makes]
      parses)

end
